theory Spec2Isabelle
  imports Main "HOL-Library.List_Lexorder"
begin

section \<open>Python strings\<close>

text \<open>
  A Python \<open>str\<close> is a sequence of Unicode code points, so a string is modelled as the
  list of its code points. \<open>U\<close> embeds an ASCII literal; text outside ASCII is written as
  the list of its code points, with a transliteration beside it.
\<close>

type_synonym ustr = "nat list"

definition U :: "string \<Rightarrow> ustr" where
  "U s = map of_char s"

text \<open>
  \<open>str.isspace\<close> for one code point: the characters that \<open>str.strip()\<close> and
  \<open>str.split()\<close> treat as whitespace.
\<close>

definition is_space :: "nat \<Rightarrow> bool" where
  "is_space c \<longleftrightarrow>
     (9 \<le> c \<and> c \<le> 13) \<or> (28 \<le> c \<and> c \<le> 32) \<or> c = 133 \<or> c = 160 \<or> c = 5760 \<or>
     (8192 \<le> c \<and> c \<le> 8202) \<or> c = 8232 \<or> c = 8233 \<or> c = 8239 \<or> c = 8287 \<or> c = 12288"

text \<open>
  \<open>str.lower()\<close> and \<open>str.upper()\<close> are builtins of Python that work on the whole of
  Unicode and are not maps of single characters (a character may lower to two, and the
  Greek sigma lowers by its place in the word). The program is therefore modelled over
  them: every function that calls \<open>.lower()\<close> or \<open>.upper()\<close> takes the two builtins as
  the argument \<open>py\<close>.
\<close>

record python =
  str_lower :: "ustr \<Rightarrow> ustr"
  str_upper :: "ustr \<Rightarrow> ustr"

text \<open>
  The lowercase and uppercase mappings of single code points on Basic Latin (A-Z) and on
  the Cyrillic block U+0400..U+045F with the Ukrainian letter U+0490/U+0491; every other
  code point is left as it is. \<open>py_lower\<close> and \<open>py_upper\<close> apply them to a string. On
  a text of these two alphabets they are what \<open>str.lower()\<close> and \<open>str.upper()\<close> give;
  the scenarios below, whose texts are of these alphabets, run the program with them.
\<close>

definition lower_cp :: "nat \<Rightarrow> nat" where
  "lower_cp c =
     (if 65 \<le> c \<and> c \<le> 90 then c + 32
      else if 1040 \<le> c \<and> c \<le> 1071 then c + 32
      else if 1024 \<le> c \<and> c \<le> 1039 then c + 80
      else if c = 1168 then 1169
      else c)"

definition upper_cp :: "nat \<Rightarrow> nat" where
  "upper_cp c =
     (if 97 \<le> c \<and> c \<le> 122 then c - 32
      else if 1072 \<le> c \<and> c \<le> 1103 then c - 32
      else if 1104 \<le> c \<and> c \<le> 1119 then c - 80
      else if c = 1169 then 1168
      else c)"

definition py_lower :: "ustr \<Rightarrow> ustr" where
  "py_lower s = map lower_cp s"

definition py_upper :: "ustr \<Rightarrow> ustr" where
  "py_upper s = map upper_cp s"

definition py_lstrip :: "ustr \<Rightarrow> ustr" where
  "py_lstrip s = dropWhile is_space s"

definition py_rstrip :: "ustr \<Rightarrow> ustr" where
  "py_rstrip s = rev (dropWhile is_space (rev s))"

definition py_strip :: "ustr \<Rightarrow> ustr" where
  "py_strip s = py_rstrip (py_lstrip s)"

text \<open>\<open>s.startswith(p)\<close>.\<close>

definition py_startswith :: "ustr \<Rightarrow> ustr \<Rightarrow> bool" where
  "py_startswith s p \<longleftrightarrow> take (length p) s = p"

text \<open>
  \<open>s.split()\<close> with no argument: the maximal runs of non-whitespace characters, in
  order. The first argument is the word being read.
\<close>

fun split_acc :: "ustr \<Rightarrow> ustr \<Rightarrow> ustr list" where
  "split_acc w [] = (if w = [] then [] else [w])"
| "split_acc w (c # cs) =
     (if is_space c then (if w = [] then split_acc [] cs else w # split_acc [] cs)
      else split_acc (w @ [c]) cs)"

definition py_split :: "ustr \<Rightarrow> ustr list" where
  "py_split s = split_acc [] s"

text \<open>
  \<open>s.replace(old, new)\<close>: every non-overlapping occurrence of \<open>old\<close>, scanning from the
  left. \<open>repl_skip\<close> counts the characters of a replaced occurrence that are still to be
  passed over. With an empty \<open>old\<close> Python puts \<open>new\<close> before every character and at the
  end.
\<close>

fun repl_skip :: "ustr \<Rightarrow> ustr \<Rightarrow> nat \<Rightarrow> ustr \<Rightarrow> ustr" where
  "repl_skip old new k [] = []"
| "repl_skip old new (Suc k) (c # cs) = repl_skip old new k cs"
| "repl_skip old new 0 (c # cs) =
     (if py_startswith (c # cs) old then new @ repl_skip old new (length old - 1) cs
      else c # repl_skip old new 0 cs)"

definition py_replace :: "ustr \<Rightarrow> ustr \<Rightarrow> ustr \<Rightarrow> ustr" where
  "py_replace s old new =
     (if old = [] then new @ concat (map (\<lambda>c. c # new) s) else repl_skip old new 0 s)"

text \<open>\<open>str(n)\<close> for an integer: decimal digits, with a minus sign when negative.\<close>

fun digits :: "nat \<Rightarrow> ustr" where
  "digits n = (if n < 10 then [48 + n] else digits (n div 10) @ [48 + n mod 10])"

declare digits.simps [simp del]

definition str_int :: "int \<Rightarrow> ustr" where
  "str_int i = (if i < 0 then 45 # digits (nat (- i)) else digits (nat i))"

section \<open>The store (version2\_database.py)\<close>

text \<open>
  The tables of the SQLite store that the modelled handlers read or write. A table whose
  rows are searched or replaced is the list of its rows, in table order; \<open>roles\<close> and
  \<open>custom_names\<close> are maps from their primary key and \<open>say_blocks\<close> is the set of its
  keys. Timestamps are ISO strings produced by \<open>datetime.now()\<close> in
  the source; the model takes the current time as an argument \<open>now\<close> and stores it as a
  number. Columns that no modelled function reads (the further columns of \<open>users\<close>, the
  row id of \<open>command_aliases\<close>) are left out.
\<close>

datatype role = head_admin | gnome

datatype mode = sayon | sayson

record online_mode =
  om_user_id :: int
  om_mode :: mode
  om_started_at :: nat
  om_last_activity :: nat
  om_source_chat_id :: "int option"

record user_row =
  u_user_id :: int
  u_username :: ustr
  u_full_name :: ustr

record command_alias =
  ca_chat_id :: int
  ca_alias_name :: ustr
  ca_target_command :: ustr
  ca_created_by :: int
  ca_created_at :: nat

record personal_command =
  pc_id :: int
  pc_chat_id :: int
  pc_command_name :: ustr
  pc_template_text :: ustr
  pc_created_by :: int
  pc_created_at :: nat

record media_row =
  pm_id :: int
  pm_command_id :: int
  pm_media_type :: ustr
  pm_file_id :: ustr
  pm_created_at :: nat

record db =
  roles :: "int \<rightharpoonup> role"
  online_modes :: "online_mode list"
  users :: "user_row list"
  say_blocks :: "int set"
  custom_names :: "int \<rightharpoonup> ustr"
  command_aliases :: "command_alias list"
  personal_commands :: "personal_command list"
  personal_command_media :: "media_row list"

text \<open>
  \<open>get_connection\<close> is \<open>sqlite3.connect(self.db_path)\<close> and nothing else: no
  \<open>PRAGMA foreign_keys = ON\<close> is ever executed on a connection (nor anywhere in the
  repository), and SQLite enforces foreign keys only on a connection where that pragma is
  on. \<open>foreign_keys\<close> is the setting of the connection that \<open>get_connection\<close> returns.
\<close>

record connection =
  foreign_keys :: bool

definition get_connection :: connection where
  "get_connection = \<lparr>foreign_keys = False\<rparr>"

subsection \<open>Roles, names, blocks\<close>

definition get_role :: "db \<Rightarrow> int \<Rightarrow> role option" where
  "get_role d user_id = roles d user_id"

definition get_custom_name :: "db \<Rightarrow> int \<Rightarrow> ustr option" where
  "get_custom_name d user_id = custom_names d user_id"

definition is_say_blocked :: "db \<Rightarrow> int \<Rightarrow> bool" where
  "is_say_blocked d user_id \<longleftrightarrow> user_id \<in> say_blocks d"

subsection \<open>online\_modes\<close>

text \<open>
  \<open>INSERT OR REPLACE INTO online_modes\<close>: \<open>user_id\<close> is the primary key, so a row with
  the same \<open>user_id\<close> is deleted before the new row is inserted.
\<close>

definition set_online_mode :: "db \<Rightarrow> nat \<Rightarrow> int \<Rightarrow> mode \<Rightarrow> int option \<Rightarrow> db" where
  "set_online_mode d now user_id m source_chat_id =
     d\<lparr>online_modes :=
         filter (\<lambda>r. om_user_id r \<noteq> user_id) (online_modes d) @
         [\<lparr>om_user_id = user_id, om_mode = m, om_started_at = now, om_last_activity = now,
           om_source_chat_id = source_chat_id\<rparr>]\<rparr>"

definition update_online_activity :: "db \<Rightarrow> nat \<Rightarrow> int \<Rightarrow> db" where
  "update_online_activity d now user_id =
     d\<lparr>online_modes :=
         map (\<lambda>r. if om_user_id r = user_id then r\<lparr>om_last_activity := now\<rparr> else r)
           (online_modes d)\<rparr>"

definition get_online_mode :: "db \<Rightarrow> int \<Rightarrow> mode option" where
  "get_online_mode d user_id =
     map_option om_mode (find (\<lambda>r. om_user_id r = user_id) (online_modes d))"

text \<open>\<open>result[0] if result else None\<close>: the column itself may be NULL.\<close>

definition get_online_mode_source :: "db \<Rightarrow> int \<Rightarrow> int option" where
  "get_online_mode_source d user_id =
     (case find (\<lambda>r. om_user_id r = user_id) (online_modes d) of
        None \<Rightarrow> None
      | Some r \<Rightarrow> om_source_chat_id r)"

definition remove_online_mode :: "db \<Rightarrow> int \<Rightarrow> db" where
  "remove_online_mode d user_id =
     d\<lparr>online_modes := filter (\<lambda>r. om_user_id r \<noteq> user_id) (online_modes d)\<rparr>"

definition clear_all_online_modes :: "db \<Rightarrow> db" where
  "clear_all_online_modes d = d\<lparr>online_modes := []\<rparr>"

subsection \<open>users\<close>

text \<open>
  \<open>add_or_update_user\<close> as \<open>save_user_from_update\<close> calls it (no keyword arguments): an
  existing row gets the non-empty fields, otherwise a row is inserted. \<open>user_id\<close> is
  the \<open>INTEGER PRIMARY KEY\<close> of \<open>users\<close>, so the rows lie in the order of \<open>user_id\<close>,
  which is the order in which a \<open>SELECT\<close> without \<open>ORDER BY\<close> scans them: the new row
  goes to its place in that order.
\<close>

definition add_or_update_user :: "db \<Rightarrow> int \<Rightarrow> ustr \<Rightarrow> ustr \<Rightarrow> db" where
  "add_or_update_user d user_id username full_name =
     (if \<exists>r \<in> set (users d). u_user_id r = user_id then
        d\<lparr>users :=
            map (\<lambda>r. if u_user_id r = user_id then
                        r\<lparr>u_username := (if username \<noteq> [] then username else u_username r),
                          u_full_name := (if full_name \<noteq> [] then full_name else u_full_name r)\<rparr>
                      else r) (users d)\<rparr>
      else
        d\<lparr>users :=
            insort_key u_user_id
              \<lparr>u_user_id = user_id, u_username = username, u_full_name = full_name\<rparr>
              (users d)\<rparr>)"

text \<open>
  SQLite's \<open>LOWER\<close> folds ASCII letters only. \<open>LIKE\<close> compares ASCII letters without
  case, and \<open>_\<close> in the pattern stands for any one character; the pattern is
  \<open>%username%\<close>, and a matched username holds no \<open>%\<close>.
\<close>

definition sql_lower_cp :: "nat \<Rightarrow> nat" where
  "sql_lower_cp c = (if 65 \<le> c \<and> c \<le> 90 then c + 32 else c)"

definition sql_lower :: "ustr \<Rightarrow> ustr" where
  "sql_lower s = map sql_lower_cp s"

fun like_at :: "ustr \<Rightarrow> ustr \<Rightarrow> bool" where
  "like_at [] s = True"
| "like_at (p # ps) [] = False"
| "like_at (p # ps) (c # cs) = ((p = 95 \<or> sql_lower_cp p = sql_lower_cp c) \<and> like_at ps cs)"

fun like_contains :: "ustr \<Rightarrow> ustr \<Rightarrow> bool" where
  "like_contains p [] = like_at p []"
| "like_contains p (c # cs) = (like_at p (c # cs) \<or> like_contains p cs)"

text \<open>
  \<open>get_user_by_username\<close>: exact match without case, then the same with \<open>@\<close> in front,
  then containment; \<open>fetchone\<close> takes the first row.
\<close>

definition get_user_by_username :: "db \<Rightarrow> ustr \<Rightarrow> user_row option" where
  "get_user_by_username d username =
     (case find (\<lambda>r. sql_lower (u_username r) = sql_lower username) (users d) of
        Some r \<Rightarrow> Some r
      | None \<Rightarrow>
         (case find (\<lambda>r. sql_lower (u_username r) = sql_lower (64 # username)) (users d) of
            Some r \<Rightarrow> Some r
          | None \<Rightarrow> find (\<lambda>r. like_contains (sql_lower username) (sql_lower (u_username r)))
                      (users d)))"

subsection \<open>command\_aliases\<close>

text \<open>
  \<open>INSERT OR REPLACE\<close> under \<open>UNIQUE(chat_id, alias_name)\<close>; the name is stored
  lowercased.
\<close>

definition add_command_alias :: "python \<Rightarrow> db \<Rightarrow> nat \<Rightarrow> int \<Rightarrow> ustr \<Rightarrow> ustr \<Rightarrow> int \<Rightarrow> db" where
  "add_command_alias py d now chat_id alias_name target_command created_by =
     d\<lparr>command_aliases :=
         filter (\<lambda>r. \<not> (ca_chat_id r = chat_id \<and> ca_alias_name r = str_lower py alias_name))
           (command_aliases d) @
         [\<lparr>ca_chat_id = chat_id, ca_alias_name = str_lower py alias_name,
           ca_target_command = target_command, ca_created_by = created_by,
           ca_created_at = now\<rparr>]\<rparr>"

definition get_command_alias :: "python \<Rightarrow> db \<Rightarrow> int \<Rightarrow> ustr \<Rightarrow> ustr option" where
  "get_command_alias py d chat_id alias_name =
     map_option ca_target_command
       (find (\<lambda>r. ca_chat_id r = chat_id \<and> ca_alias_name r = str_lower py alias_name)
          (command_aliases d))"

subsection \<open>personal\_commands and personal\_command\_media\<close>

text \<open>What \<open>get_all_personal_commands\<close> returns for one row: name, template, id.\<close>

record cmd =
  name :: ustr
  template :: ustr
  cmd_id :: int

definition row_cmd :: "personal_command \<Rightarrow> cmd" where
  "row_cmd r = \<lparr>name = pc_command_name r, template = pc_template_text r, cmd_id = pc_id r\<rparr>"

text \<open>
  \<open>SELECT command_name, template_text, id FROM personal_commands WHERE chat_id = ?
  ORDER BY command_name\<close>: the rows of the chat, ordered by name (code point order).
\<close>

definition get_all_personal_commands :: "db \<Rightarrow> int \<Rightarrow> cmd list" where
  "get_all_personal_commands d chat_id =
     map row_cmd
       (sort_key pc_command_name (filter (\<lambda>r. pc_chat_id r = chat_id) (personal_commands d)))"

text \<open>
  \<open>DELETE FROM personal_commands WHERE ...\<close> on a connection. The schema declares
  \<open>FOREIGN KEY(command_id) REFERENCES personal_commands(id) ON DELETE CASCADE\<close> on
  \<open>personal_command_media\<close>; SQLite runs that action only when the connection has
  foreign keys on.
\<close>

definition delete_from_personal_commands ::
  "connection \<Rightarrow> db \<Rightarrow> (personal_command \<Rightarrow> bool) \<Rightarrow> db" where
  "delete_from_personal_commands conn d P =
     (let deleted_ids = map pc_id (filter P (personal_commands d)) in
      d\<lparr>personal_commands := filter (\<lambda>r. \<not> P r) (personal_commands d),
        personal_command_media :=
          (if foreign_keys conn
           then filter (\<lambda>m. pm_command_id m \<notin> set deleted_ids) (personal_command_media d)
           else personal_command_media d)\<rparr>)"

definition delete_personal_command :: "python \<Rightarrow> db \<Rightarrow> int \<Rightarrow> ustr \<Rightarrow> db" where
  "delete_personal_command py d chat_id command_name =
     delete_from_personal_commands get_connection d
       (\<lambda>r. pc_chat_id r = chat_id \<and> pc_command_name r = str_lower py command_name)"

definition get_personal_command :: "python \<Rightarrow> db \<Rightarrow> int \<Rightarrow> ustr \<Rightarrow> cmd option" where
  "get_personal_command py d chat_id command_name =
     map_option row_cmd
       (find (\<lambda>r. pc_chat_id r = chat_id \<and> pc_command_name r = str_lower py command_name)
          (personal_commands d))"

text \<open>
  \<open>get_personal_command_media\<close>: the rows of the command ordered by \<open>created_at\<close>. The
  source returns \<open>None\<close> for no rows; callers only test the result for truth, so the
  empty list stands for it.
\<close>

definition get_personal_command_media :: "db \<Rightarrow> int \<Rightarrow> media_row list" where
  "get_personal_command_media d command_id =
     sort_key pm_created_at
       (filter (\<lambda>m. pm_command_id m = command_id) (personal_command_media d))"

section \<open>Configuration, events, outbound actions (bot.py)\<close>

text \<open>
  The module globals read by the handlers. \<open>COMMAND_HANDLERS\<close> is the dictionary of
  canonical commands; only its keys matter here. \<open>if not USER_CHAT_ID\<close> holds for an
  unset and for a zero \<open>USER_CHAT_ID\<close>; the handlers below test both.
\<close>

record config =
  OWNER_IDS :: "int list"
  USER_CHAT_ID :: "int option"
  COMMAND_HANDLERS :: "ustr list"

definition is_owner :: "config \<Rightarrow> int \<Rightarrow> bool" where
  "is_owner cfg user_id \<longleftrightarrow> user_id \<in> set (OWNER_IDS cfg)"

definition is_head_admin :: "db \<Rightarrow> int \<Rightarrow> bool" where
  "is_head_admin d user_id \<longleftrightarrow> get_role d user_id = Some head_admin"

definition is_gnome :: "db \<Rightarrow> int \<Rightarrow> bool" where
  "is_gnome d user_id \<longleftrightarrow> get_role d user_id = Some gnome"

definition can_use_bot :: "config \<Rightarrow> db \<Rightarrow> int \<Rightarrow> bool" where
  "can_use_bot cfg d user_id \<longleftrightarrow>
     is_owner cfg user_id \<or> is_head_admin d user_id \<or> is_gnome d user_id"

text \<open>The default name, "Nevidomyi" (unknown), in Cyrillic.\<close>

definition nevidomyi :: ustr where
  "nevidomyi = [1053, 1077, 1074, 1110, 1076, 1086, 1084, 1080, 1081]"

definition get_display_name :: "db \<Rightarrow> int \<Rightarrow> ustr \<Rightarrow> ustr" where
  "get_display_name d user_id default_name =
     (case get_custom_name d user_id of
        Some custom_name \<Rightarrow>
          if custom_name \<noteq> [] then custom_name
          else if default_name \<noteq> [] then default_name else nevidomyi
      | None \<Rightarrow> if default_name \<noteq> [] then default_name else nevidomyi)"

text \<open>
  \<open>safe_send_message\<close>: drops \<open>< > &\<close>, \<open>@ #\<close> and the square brackets, then strips.
\<close>

definition safe_send_message :: "ustr \<Rightarrow> ustr" where
  "safe_send_message text =
     (if text = [] then []
      else py_strip (filter (\<lambda>c. c \<notin> {60, 62, 38, 64, 35, 91, 93}) text))"

text \<open>
  A Telegram user as the handlers see it; an absent \<open>username\<close> or name is the empty
  string (the source tests them for truth only).
\<close>

record tg_user =
  tu_id :: int
  tu_full_name :: ustr
  tu_first_name :: ustr
  tu_username :: ustr

text \<open>
  The update of one inbound message. \<open>reply_to_user\<close> is
  \<open>update.message.reply_to_message.from_user\<close> when both exist. Text and caption are
  empty when absent.
\<close>

record update =
  effective_user :: "tg_user option"
  effective_chat_id :: int
  message_text :: ustr
  message_caption :: ustr
  reply_to_user :: "tg_user option"
  message_id :: int

text \<open>
  What lies outside the program: the Telegram lookup \<open>context.bot.get_chat("@name")\<close>
  (\<open>None\<close> when it raises or finds nobody) and the number that \<open>random.choice\<close> draws.
\<close>

record env =
  get_chat :: "ustr \<Rightarrow> tg_user option"
  choice :: nat

text \<open>
  Outbound calls. \<open>Invoke c args\<close> is a call of the canonical command handler \<open>c\<close> with
  \<open>context.args = args\<close>; where the source calls a handler without setting
  \<open>context.args\<close> the list is empty. \<open>DenyImport\<close> is the fixed reply that only the
  owner may import.
\<close>

datatype action =
    DeleteMessage
  | ReplyText ustr
  | SendPhoto int ustr ustr
  | SendAnimation int ustr ustr
  | SendVideo int ustr ustr
  | SendSticker int ustr
  | SendMessage int ustr
  | ForwardMessage int int int
  | Invoke ustr "ustr list"
  | ProcessBackupImport ustr
  | DenyImport

text \<open>
  The \<open>return\<close> at which \<open>handle_text_commands\<close> ended, and the outcome of a dispatch:
  that stage, the outbound calls in order, and the store as the handler's own \<open>Database\<close>
  calls leave it. An \<open>Invoke\<close> or \<open>ProcessBackupImport\<close> in the list is a call out of
  the modelled code: the command runs on that store before the handler returns, and what
  it writes there is not part of the outcome. The same holds for the store that
  \<open>handle_all_messages\<close> returns beside its calls.
\<close>

datatype stage =
  Guard | Template | CapabilityGate | Session | Phrase | RestoreToken | Alias | NoMatch

type_synonym outcome = "stage \<times> action list \<times> db"

section \<open>Session toggles (sayon\_command, sayson\_command)\<close>

definition save_user_from_update :: "db \<Rightarrow> update \<Rightarrow> db" where
  "save_user_from_update d upd =
     (case effective_user upd of
        None \<Rightarrow> d
      | Some u \<Rightarrow> add_or_update_user d (tu_id u) (tu_username u) (tu_full_name u))"

text \<open>
  The toggles, as transformers of the store. The confirmation reply and the line written
  to the log channel do not touch the store and are left out.
\<close>

definition sayon_command :: "config \<Rightarrow> db \<Rightarrow> update \<Rightarrow> nat \<Rightarrow> db" where
  "sayon_command cfg d0 upd now =
     (let d = save_user_from_update d0 upd in
      case effective_user upd of
        None \<Rightarrow> d
      | Some u \<Rightarrow>
          let user_id = tu_id u in
          if \<not> can_use_bot cfg d user_id then d
          else if is_say_blocked d user_id then d
          else if get_online_mode d user_id = Some sayon then remove_online_mode d user_id
          else set_online_mode d now user_id sayon (Some (effective_chat_id upd)))"

definition sayson_command :: "config \<Rightarrow> db \<Rightarrow> update \<Rightarrow> nat \<Rightarrow> db" where
  "sayson_command cfg d0 upd now =
     (let d = save_user_from_update d0 upd in
      case effective_user upd of
        None \<Rightarrow> d
      | Some u \<Rightarrow>
          let user_id = tu_id u in
          if \<not> can_use_bot cfg d user_id then d
          else if is_say_blocked d user_id then d
          else if get_online_mode d user_id = Some sayson then remove_online_mode d user_id
          else set_online_mode d now user_id sayson (Some (effective_chat_id upd)))"

text \<open>The toggle of a mode.\<close>

fun toggle :: "mode \<Rightarrow> config \<Rightarrow> db \<Rightarrow> update \<Rightarrow> nat \<Rightarrow> db" where
  "toggle sayon = sayon_command"
| "toggle sayson = sayson_command"

section \<open>Forwarding (handle\_all\_messages)\<close>

text \<open>
  \<open>signature = f"\n\n-- {author_name} {username}"\<close> with an em dash (U+2014), where
  \<open>username\<close> is \<open>@\<close> and the sanitised handle, or empty without a handle.
\<close>

definition signature :: "tg_user \<Rightarrow> ustr" where
  "signature u =
     (let author_name =
            safe_send_message (if tu_full_name u \<noteq> [] then tu_full_name u else nevidomyi);
          username = (if tu_username u \<noteq> [] then 64 # safe_send_message (tu_username u) else [])
      in [10, 10, 8212, 32] @ author_name @ [32] @ username)"

text \<open>
  The \<open>try\<close> block of \<open>handle_all_messages\<close> (lines 2131-2178), sending to
  \<open>USER_CHAT_ID = dest\<close>. A failing send is caught and logged there; sends are taken to
  succeed.
\<close>

definition forward_message :: "int \<Rightarrow> tg_user \<Rightarrow> update \<Rightarrow> mode \<Rightarrow> action list" where
  "forward_message dest u upd m =
     (case m of
        sayon \<Rightarrow>
          if message_text upd \<noteq> [] then
            [SendMessage dest (safe_send_message (message_text upd) @ signature u)]
          else if message_caption upd \<noteq> [] then
            [SendMessage dest (safe_send_message (message_caption upd) @ signature u)]
          else
            [ForwardMessage dest (effective_chat_id upd) (message_id upd),
             SendMessage dest (py_strip (signature u))]
      | sayson \<Rightarrow>
          if message_text upd \<noteq> [] then
            [SendMessage dest (safe_send_message (message_text upd))]
          else if message_caption upd \<noteq> [] then
            [SendMessage dest (safe_send_message (message_caption upd))]
          else
            [ForwardMessage dest (effective_chat_id upd) (message_id upd)])"

text \<open>
  Lines 2113-2129: the session lookup, the source check, the activity stamp; then the
  forward.
\<close>

definition session_forward ::
  "config \<Rightarrow> db \<Rightarrow> int \<Rightarrow> tg_user \<Rightarrow> update \<Rightarrow> nat \<Rightarrow> action list \<times> db" where
  "session_forward cfg d dest u upd now =
     (let user_id = tu_id u;
          chat_id = effective_chat_id upd;
          source_chat_id = get_online_mode_source d user_id in
      case get_online_mode d user_id of
        None \<Rightarrow> ([], d)
      | Some m \<Rightarrow>
          if \<not> is_owner cfg user_id \<and> source_chat_id \<noteq> Some chat_id then ([], d)
          else (forward_message dest u upd m, update_online_activity d now user_id))"

text \<open>
  \<open>handle_all_messages\<close>. The three profile-deletion texts \<open>-myname\<close>, \<open>-mym\<close>,
  \<open>-mymt\<close> go to their handlers.
\<close>

definition handle_all_messages :: "config \<Rightarrow> db \<Rightarrow> update \<Rightarrow> nat \<Rightarrow> action list \<times> db" where
  "handle_all_messages cfg d0 upd now =
     (case effective_user upd of
        None \<Rightarrow> ([], d0)
      | Some u \<Rightarrow>
          let d = save_user_from_update d0 upd;
              text = py_strip (message_text upd) in
          if \<not> can_use_bot cfg d (tu_id u) then ([], d)
          else if py_startswith (message_text upd) (U ''-'') \<and> message_text upd \<noteq> [] \<and>
                  text = U ''-myname'' then ([Invoke (U ''del_myname'') []], d)
          else if py_startswith (message_text upd) (U ''-'') \<and> message_text upd \<noteq> [] \<and>
                  text = U ''-mym'' then ([Invoke (U ''del_mym'') []], d)
          else if py_startswith (message_text upd) (U ''-'') \<and> message_text upd \<noteq> [] \<and>
                  text = U ''-mymt'' then ([Invoke (U ''del_mymt'') []], d)
          else
            (case USER_CHAT_ID cfg of
               None \<Rightarrow> ([], d)
             | Some dest \<Rightarrow> if dest = 0 then ([], d) else session_forward cfg d dest u upd now))"

section \<open>Text dispatch (handle\_text\_commands)\<close>

subsection \<open>Cleanup (lines 5697-5706)\<close>

definition cleanup :: "ustr \<Rightarrow> action list" where
  "cleanup text = (if py_startswith text (U ''/'') then [DeleteMessage] else [])"

subsection \<open>Template match (lines 5708-5731)\<close>

text \<open>\<open>len(x['name'].split())\<close>, the sort key.\<close>

definition word_count :: "cmd \<Rightarrow> nat" where
  "word_count c = length (py_split (name c))"

text \<open>
  \<open>all_commands.sort(key=..., reverse=True)\<close>: descending by word count; Python's sort
  is stable and \<open>reverse=True\<close> keeps the original order of equal keys.
\<close>

definition sort_commands :: "cmd list \<Rightarrow> cmd list" where
  "sort_commands cmds = sort_key (\<lambda>c. - int (word_count c)) cmds"

text \<open>\<open>text.lower().startswith(cmd['name'].lower())\<close>.\<close>

definition cmd_matches :: "python \<Rightarrow> ustr \<Rightarrow> cmd \<Rightarrow> bool" where
  "cmd_matches py text c \<longleftrightarrow>
     py_startswith (str_lower py text) (str_lower py (name c))"

text \<open>The loop with \<open>break\<close>: the first command of the sorted list that matches.\<close>

definition select_template :: "python \<Rightarrow> cmd list \<Rightarrow> ustr \<Rightarrow> cmd option" where
  "select_template py all_commands text =
     find (cmd_matches py text) (sort_commands all_commands)"

subsection \<open>Placeholder resolution and rendering (lines 5733-5857)\<close>

text \<open>
  \<open>re.search(r'@([a-zA-Z0-9_]{5,32})', extra_text)\<close>: the leftmost \<open>@\<close> followed by at
  least five characters of the class; the group is the run of such characters, at most 32.
\<close>

definition is_word_cp :: "nat \<Rightarrow> bool" where
  "is_word_cp c \<longleftrightarrow>
     (48 \<le> c \<and> c \<le> 57) \<or> (65 \<le> c \<and> c \<le> 90) \<or> (97 \<le> c \<and> c \<le> 122) \<or> c = 95"

fun find_username :: "ustr \<Rightarrow> ustr option" where
  "find_username [] = None"
| "find_username (c # cs) =
     (if c = 64 \<and> 5 \<le> length (takeWhile is_word_cp (take 32 cs))
      then Some (takeWhile is_word_cp (take 32 cs))
      else find_username cs)"

text \<open>\<open>f"<a href='tg://user?id={user_id}'>{name}</a>"\<close>; 39 is the apostrophe.\<close>

definition clickable :: "int \<Rightarrow> ustr \<Rightarrow> ustr" where
  "clickable user_id display_name =
     U ''<a href='' @ [39] @ U ''tg://user?id='' @ str_int user_id @ [39] @ U ''>'' @
     display_name @ U ''</a>''"

text \<open>The three variables that the resolution steps assign.\<close>

record resolution =
  target_id :: "int option"
  clickable_s2 :: "ustr option"
  extra_text_for_output :: ustr

text \<open>\<open>if not target_id\<close>: unassigned or zero.\<close>

definition no_target :: "resolution \<Rightarrow> bool" where
  "no_target r \<longleftrightarrow> target_id r = None \<or> target_id r = Some 0"

definition resolved :: "int \<Rightarrow> ustr \<Rightarrow> ustr \<Rightarrow> resolution" where
  "resolved uid display_name out =
     \<lparr>target_id = Some uid, clickable_s2 = Some (clickable uid display_name),
      extra_text_for_output = out\<rparr>"

text \<open>Lines 5753-5793: a handle in the text, looked up in the store, then at Telegram.\<close>

definition resolve_by_username :: "db \<Rightarrow> env \<Rightarrow> ustr \<Rightarrow> resolution" where
  "resolve_by_username d e extra_text =
     (let r0 = \<lparr>target_id = None, clickable_s2 = None, extra_text_for_output = extra_text\<rparr> in
      case find_username extra_text of
        None \<Rightarrow> r0
      | Some found_username \<Rightarrow>
          let out = py_strip (py_replace extra_text (64 # found_username) []);
              r1 = (case get_user_by_username d found_username of
                      None \<Rightarrow> r0
                    | Some db_user \<Rightarrow>
                        resolved (u_user_id db_user)
                          (get_display_name d (u_user_id db_user) (u_full_name db_user)) out)
          in if no_target r1 then
               (case get_chat e (64 # found_username) of
                  None \<Rightarrow> r1
                | Some found_user \<Rightarrow>
                    resolved (tu_id found_user)
                      (get_display_name d (tu_id found_user) (tu_first_name found_user)) out)
             else r1)"

text \<open>Lines 5795-5803: otherwise the author of the message replied to.\<close>

definition resolve_by_reply :: "db \<Rightarrow> update \<Rightarrow> resolution \<Rightarrow> resolution" where
  "resolve_by_reply d upd r =
     (if no_target r then
        (case reply_to_user upd of
           None \<Rightarrow> r
         | Some target_user \<Rightarrow>
             r\<lparr>target_id := Some (tu_id target_user),
               clickable_s2 := Some (clickable (tu_id target_user)
                  (get_display_name d (tu_id target_user) (tu_full_name target_user)))\<rparr>)
      else r)"

definition resolve_target :: "db \<Rightarrow> env \<Rightarrow> update \<Rightarrow> ustr \<Rightarrow> resolution" where
  "resolve_target d e upd extra_text = resolve_by_reply d upd (resolve_by_username d e extra_text)"

text \<open>\<open>if target_id and clickable_s2\<close>.\<close>

definition has_target :: "resolution \<Rightarrow> bool" where
  "has_target r \<longleftrightarrow> \<not> no_target r \<and> clickable_s2 r \<noteq> None \<and> clickable_s2 r \<noteq> Some []"

definition render :: "ustr \<Rightarrow> ustr \<Rightarrow> ustr \<Rightarrow> ustr \<Rightarrow> ustr" where
  "render tmpl s1 s2 t =
     py_replace (py_replace (py_replace tmpl (U ''@s1'') s1) (U ''@s2'') s2) (U ''@t'') t"

text \<open>
  Lines 5812-5856: one medium of the pool, drawn by \<open>random.choice\<close>, carries the text
  as caption; a sticker is followed by the text; with no media the text alone.
\<close>

definition send_rendered :: "db \<Rightarrow> env \<Rightarrow> int \<Rightarrow> int \<Rightarrow> ustr \<Rightarrow> action list" where
  "send_rendered d e chat_id command_id result_text =
     (let media_list = get_personal_command_media d command_id in
      if media_list = [] then [ReplyText result_text]
      else
        let selected_media = media_list ! (choice e mod length media_list);
            ty = pm_media_type selected_media;
            file_id = pm_file_id selected_media
        in if ty = U ''photo'' then [SendPhoto chat_id file_id result_text]
           else if ty = U ''animation'' then [SendAnimation chat_id file_id result_text]
           else if ty = U ''video'' then [SendVideo chat_id file_id result_text]
           else if ty = U ''sticker'' then [SendSticker chat_id file_id, ReplyText result_text]
           else [])"

text \<open>
  The template stage: \<open>Some\<close> of what it sends when it ends the dispatch (the
  \<open>return\<close> of line 5857), \<open>None\<close> when control goes on to line 5859.
\<close>

definition template_stage ::
  "python \<Rightarrow> db \<Rightarrow> env \<Rightarrow> update \<Rightarrow> tg_user \<Rightarrow> ustr \<Rightarrow> action list option" where
  "template_stage py d e upd u text =
     (case select_template py (get_all_personal_commands d (effective_chat_id upd)) text of
        None \<Rightarrow> None
      | Some cmd_info \<Rightarrow>
          let sender_name = get_display_name d (tu_id u) (tu_full_name u);
              clickable_s1 = clickable (tu_id u) sender_name;
              extra_text = py_strip (drop (length (name cmd_info)) text);
              r = resolve_target d e upd extra_text
          in (case clickable_s2 r of
                None \<Rightarrow> None
              | Some s2 \<Rightarrow>
                  if has_target r then
                    Some (send_rendered d e (effective_chat_id upd) (cmd_id cmd_info)
                            (render (template cmd_info) clickable_s1 s2
                               (extra_text_for_output r)))
                  else None))"

subsection \<open>Session stage (lines 5872-5942)\<close>

text \<open>
  The \<open>try\<close> block of lines 5892-5938. Unlike \<open>handle_all_messages\<close> it has no branch
  for a message with neither text nor caption.
\<close>

definition forward_text :: "int \<Rightarrow> tg_user \<Rightarrow> update \<Rightarrow> mode \<Rightarrow> action list" where
  "forward_text dest u upd m =
     (case m of
        sayon \<Rightarrow>
          if message_text upd \<noteq> [] then
            [SendMessage dest (safe_send_message (message_text upd) @ signature u)]
          else if message_caption upd \<noteq> [] then
            [SendMessage dest (safe_send_message (message_caption upd) @ signature u)]
          else []
      | sayson \<Rightarrow>
          if message_text upd \<noteq> [] then
            [SendMessage dest (safe_send_message (message_text upd))]
          else if message_caption upd \<noteq> [] then
            [SendMessage dest (safe_send_message (message_caption upd))]
          else [])"

text \<open>
  \<open>Some\<close> when the stage ends the dispatch (the \<open>return\<close>s of lines 5888 and 5942, both
  inside \<open>if is_owner_user or source_chat_id == chat_id\<close>), \<open>None\<close> when control goes on
  to the phrases.
\<close>

definition session_stage ::
  "config \<Rightarrow> db \<Rightarrow> update \<Rightarrow> tg_user \<Rightarrow> nat \<Rightarrow> (action list \<times> db) option" where
  "session_stage cfg d upd u now =
     (let user_id = tu_id u in
      case get_online_mode d user_id of
        None \<Rightarrow> None
      | Some m \<Rightarrow>
          if is_owner cfg user_id \<or> get_online_mode_source d user_id = Some (effective_chat_id upd)
          then
            (case USER_CHAT_ID cfg of
               None \<Rightarrow> Some ([], d)
             | Some dest \<Rightarrow>
                 if dest = 0 then Some ([], d)
                 else Some (forward_text dest u upd m, update_online_activity d now user_id))
          else None)"

subsection \<open>Phrase commands (lines 5944-6027)\<close>

text \<open>
  The fixed phrases, as code points. In order: "davai prava", "dai adminku",
  "dai vse prava", "davai adminku".
\<close>

definition phrases_giveperm :: "ustr list" where
  "phrases_giveperm =
     [[1076, 1072, 1074, 1072, 1081, 32, 1087, 1088, 1072, 1074, 1072],
      [1076, 1072, 1081, 32, 1072, 1076, 1084, 1110, 1085, 1082, 1091],
      [1076, 1072, 1081, 32, 1074, 1089, 1077, 32, 1087, 1088, 1072, 1074, 1072],
      [1076, 1072, 1074, 1072, 1081, 32, 1072, 1076, 1084, 1110, 1085, 1082, 1091]]"

text \<open>
  "daty zvychainu adminu", "daty zvychainu adminku", "daty adminku zvychainu",
  "dai zvychainu adminku", "zvychaina adminka", "obichnaya adminka".
\<close>

definition phrases_giveperm_simple :: "ustr list" where
  "phrases_giveperm_simple =
     [[1076, 1072, 1090, 1080, 32, 1079, 1074, 1080, 1095, 1072, 1081, 1085, 1091, 32,
       1072, 1076, 1084, 1110, 1085, 1091],
      [1076, 1072, 1090, 1080, 32, 1079, 1074, 1080, 1095, 1072, 1081, 1085, 1091, 32,
       1072, 1076, 1084, 1110, 1085, 1082, 1091],
      [1076, 1072, 1090, 1080, 32, 1072, 1076, 1084, 1110, 1085, 1082, 1091, 32,
       1079, 1074, 1080, 1095, 1072, 1081, 1085, 1091],
      [1076, 1072, 1081, 32, 1079, 1074, 1080, 1095, 1072, 1081, 1085, 1091, 32,
       1072, 1076, 1084, 1110, 1085, 1082, 1091],
      [1079, 1074, 1080, 1095, 1072, 1081, 1085, 1072, 32, 1072, 1076, 1084, 1110, 1085,
       1082, 1072],
      [1086, 1073, 1080, 1095, 1085, 1072, 1103, 32, 1072, 1076, 1084, 1080, 1085, 1082,
       1072]]"

text \<open>"zabraty prava", "zniaty adminku".\<close>

definition phrases_removeperm :: "ustr list" where
  "phrases_removeperm =
     [[1079, 1072, 1073, 1088, 1072, 1090, 1080, 32, 1087, 1088, 1072, 1074, 1072],
      [1079, 1085, 1103, 1090, 1080, 32, 1072, 1076, 1084, 1110, 1085, 1082, 1091]]"

text \<open>"administratory" (Ukrainian), "administratory" (Russian), "adminy".\<close>

definition phrases_admin_list :: "ustr list" where
  "phrases_admin_list =
     [[1072, 1076, 1084, 1110, 1085, 1110, 1089, 1090, 1088, 1072, 1090, 1086, 1088, 1080],
      [1072, 1076, 1084, 1080, 1085, 1080, 1089, 1090, 1088, 1072, 1090, 1086, 1088, 1099],
      [1072, 1076, 1084, 1110, 1085, 1080]]"

text \<open>"odruzhyty" (marry), "rozluchyty" and "rozluchy" (divorce).\<close>

definition odruzhyty :: ustr where
  "odruzhyty = [1086, 1076, 1088, 1091, 1078, 1080, 1090, 1080]"

definition rozluchyty :: ustr where
  "rozluchyty = [1088, 1086, 1079, 1083, 1091, 1095, 1080, 1090, 1080]"

definition rozluchy :: ustr where
  "rozluchy = [1088, 1086, 1079, 1083, 1091, 1095, 1080]"

text \<open>
  \<open>marry_command\<close> is defined in bot.py, so the marry phrase reaches it through
  \<open>COMMAND_HANDLERS\<close> or through \<open>globals()\<close>. No \<open>unmarry_command\<close> is defined in
  bot.py, so the divorce phrases call a handler only when \<open>COMMAND_HANDLERS\<close> has
  \<open>unmarry\<close>.
\<close>

definition unmarry :: "config \<Rightarrow> ustr list \<Rightarrow> action list" where
  "unmarry cfg args =
     (if U ''unmarry'' \<in> set (COMMAND_HANDLERS cfg) then [Invoke (U ''unmarry'') args] else [])"

definition phrase_stage :: "config \<Rightarrow> ustr \<Rightarrow> action list option" where
  "phrase_stage cfg text =
     (if text \<in> set phrases_giveperm then Some [Invoke (U ''giveperm'') []]
      else if text \<in> set phrases_giveperm_simple then Some [Invoke (U ''giveperm_simple'') []]
      else if text \<in> set phrases_removeperm then Some [Invoke (U ''removeperm'') []]
      else if text \<in> set phrases_admin_list then Some [Invoke (U ''admin_list'') []]
      else if py_startswith text odruzhyty then
        (let parts = py_split text in
         Some [Invoke (U ''marry'') (if 1 < length parts then drop 1 parts else [])])
      else if py_startswith text rozluchyty then
        Some (unmarry cfg (py_split (py_strip (drop (length rozluchyty) text))))
      else if py_startswith text rozluchy then
        Some (unmarry cfg (py_split (py_strip (drop (length rozluchy) text))))
      else None)"

subsection \<open>Restore token (lines 6029-6055)\<close>

text \<open>
  \<open>re.search(r'kod:\s*([A-F0-9]{12})', text.upper(), re.IGNORECASE)\<close>, the label being
  the Cyrillic word "kod" and a colon: the leftmost place where the label (in either
  case), optional whitespace and twelve hexadecimal digits follow one another. The
  regular expression compares the three letters of the label without case, character by
  character; \<open>lower_cp\<close> is that comparison on them.
\<close>

definition kod :: ustr where
  "kod = [1082, 1086, 1076, 58]"

definition is_hex_ci :: "nat \<Rightarrow> bool" where
  "is_hex_ci c \<longleftrightarrow> (48 \<le> c \<and> c \<le> 57) \<or> (65 \<le> c \<and> c \<le> 70) \<or> (97 \<le> c \<and> c \<le> 102)"

definition is_hex_upper :: "nat \<Rightarrow> bool" where
  "is_hex_upper c \<longleftrightarrow> (48 \<le> c \<and> c \<le> 57) \<or> (65 \<le> c \<and> c \<le> 70)"

fun search_code :: "ustr \<Rightarrow> ustr option" where
  "search_code [] = None"
| "search_code (c # cs) =
     (let rest = dropWhile is_space (drop (length kod) (c # cs)) in
      if map lower_cp (take (length kod) (c # cs)) = kod \<and>
         length (takeWhile is_hex_ci (take 12 rest)) = 12
      then Some (take 12 rest)
      else search_code cs)"

text \<open>
  \<open>re.match(r'^[A-F0-9]{12}$', s)\<close>: twelve digits and nothing else, or one final
  newline after them.
\<close>

definition match_code :: "ustr \<Rightarrow> bool" where
  "match_code s \<longleftrightarrow>
     list_all is_hex_upper (take 12 s) \<and> length (take 12 s) = 12 \<and>
     (drop 12 s = [] \<or> drop 12 s = [10])"

definition restore_stage :: "python \<Rightarrow> config \<Rightarrow> int \<Rightarrow> ustr \<Rightarrow> action list option" where
  "restore_stage py cfg user_id text =
     (case search_code (str_upper py text) of
        Some backup_code \<Rightarrow>
          Some (if is_owner cfg user_id then [ProcessBackupImport backup_code] else [DenyImport])
      | None \<Rightarrow>
          if match_code (str_upper py text) then
            Some (if is_owner cfg user_id then [ProcessBackupImport (str_upper py text)]
                  else [DenyImport])
          else None)"

subsection \<open>Alias resolution (lines 6057-6085)\<close>

text \<open>
  \<open>first_word = text.split()[0] if text else ""\<close>. The text is stripped, so \<open>split()\<close>
  is empty only for the empty text. The alias looked up is this first word and nothing
  longer; the arguments are the words after it.
\<close>

definition first_word :: "ustr \<Rightarrow> ustr" where
  "first_word text = (case py_split text of [] \<Rightarrow> [] | w # ws \<Rightarrow> w)"

definition alias_stage :: "python \<Rightarrow> config \<Rightarrow> db \<Rightarrow> int \<Rightarrow> ustr \<Rightarrow> action list option" where
  "alias_stage py cfg d chat_id text =
     (case get_command_alias py d chat_id (first_word text) of
        None \<Rightarrow> None
      | Some alias_cmd \<Rightarrow>
          if alias_cmd = [] then None
          else
            let args = drop 1 (py_split text);
                c = str_lower py (dropWhile (\<lambda>x. x = 47) alias_cmd)
            in Some (if c \<in> set (COMMAND_HANDLERS cfg) then [Invoke c args] else []))"

subsection \<open>The handler\<close>

text \<open>
  Lines 5944-6085, everything after the session stage: phrases, restore token, alias, in
  this order, the first one that returns ending the dispatch. \<open>pre\<close> holds what the
  cleanup has already sent.
\<close>

definition after_session ::
  "python \<Rightarrow> config \<Rightarrow> db \<Rightarrow> update \<Rightarrow> tg_user \<Rightarrow> ustr \<Rightarrow> action list \<Rightarrow> outcome" where
  "after_session py cfg d upd u text pre =
     (case phrase_stage cfg text of
        Some acts \<Rightarrow> (Phrase, pre @ acts, d)
      | None \<Rightarrow>
          (case restore_stage py cfg (tu_id u) text of
             Some acts \<Rightarrow> (RestoreToken, pre @ acts, d)
           | None \<Rightarrow>
               (case alias_stage py cfg d (effective_chat_id upd) text of
                  Some acts \<Rightarrow> (Alias, pre @ acts, d)
                | None \<Rightarrow> (NoMatch, pre, d))))"

text \<open>
  Lines 5859-6085, everything after the template stage: the capability gate, the session
  stage, then the rest.
\<close>

definition after_template ::
  "python \<Rightarrow> config \<Rightarrow> db \<Rightarrow> update \<Rightarrow> tg_user \<Rightarrow> ustr \<Rightarrow> action list \<Rightarrow> nat \<Rightarrow> outcome" where
  "after_template py cfg d upd u text pre now =
     (let user_id = tu_id u;
          role = get_role d user_id;
          is_admin = (is_owner cfg user_id \<or> role = Some head_admin)
      in if \<not> is_admin then (CapabilityGate, pre, d)
         else
           case session_stage cfg d upd u now of
             Some (acts, d') \<Rightarrow> (Session, pre @ acts, d')
           | None \<Rightarrow> after_session py cfg d upd u text pre)"

text \<open>
  \<open>handle_text_commands\<close>: the stage at which the dispatch ended, what was sent, and the
  store afterwards. \<open>if not user_id\<close> also stops a user whose id is 0.
\<close>

definition handle_text_commands ::
  "python \<Rightarrow> config \<Rightarrow> env \<Rightarrow> db \<Rightarrow> update \<Rightarrow> nat \<Rightarrow> outcome" where
  "handle_text_commands py cfg e d upd now =
     (if message_text upd = [] then (Guard, [], d)
      else
        case effective_user upd of
          None \<Rightarrow> (Guard, [], d)
        | Some u \<Rightarrow>
            if tu_id u = 0 then (Guard, [], d)
            else
              let text = str_lower py (py_strip (message_text upd));
                  pre = cleanup text
              in case template_stage py d e upd u text of
                   Some acts \<Rightarrow> (Template, pre @ acts, d)
                 | None \<Rightarrow> after_template py cfg d upd u text pre now)"

section \<open>Notions for the properties\<close>

text \<open>The invariant of the session store: no two rows of one principal.\<close>

definition one_session_per_principal :: "db \<Rightarrow> bool" where
  "one_session_per_principal d \<longleftrightarrow> distinct (map om_user_id (online_modes d))"

text \<open>The two checks that both toggles make before they touch the session.\<close>

definition permitted :: "config \<Rightarrow> db \<Rightarrow> int \<Rightarrow> bool" where
  "permitted cfg d u \<longleftrightarrow> can_use_bot cfg d u \<and> \<not> is_say_blocked d u"

text \<open>
  Two stores agree on everything the toggles and the forward rule read: roles, blocks,
  and principal, mode and source chat of every session row.
\<close>

definition same_sessions :: "db \<Rightarrow> db \<Rightarrow> bool" where
  "same_sessions d d' \<longleftrightarrow>
     roles d' = roles d \<and> say_blocks d' = say_blocks d \<and>
     map (\<lambda>r. (om_user_id r, om_mode r, om_source_chat_id r)) (online_modes d') =
     map (\<lambda>r. (om_user_id r, om_mode r, om_source_chat_id r)) (online_modes d)"

text \<open>The outbound calls that run a command handler.\<close>

fun runs_command :: "action \<Rightarrow> bool" where
  "runs_command (Invoke c args) = True"
| "runs_command (ProcessBackupImport code) = True"
| "runs_command a = False"

text \<open>
  Inbound messages between two commands: each goes through \<open>handle_all_messages\<close> or
  through \<open>handle_text_commands\<close>. A message whose handling runs a command hands the
  store to that command, which is not modelled; its delivery has no result here. A
  message that is forwarded, or rendered from a template, or ignored, runs none, and
  leaves the store that the handler returns. \<open>deliver_all\<close> threads the store through
  the messages in order, and has a result when none of them runs a command.
\<close>

datatype inbound = AllMessages update nat | TextCommands env update nat

fun deliver :: "python \<Rightarrow> config \<Rightarrow> db \<Rightarrow> inbound \<Rightarrow> db option" where
  "deliver py cfg d (AllMessages upd now) =
     (if list_ex runs_command (fst (handle_all_messages cfg d upd now)) then None
      else Some (snd (handle_all_messages cfg d upd now)))"
| "deliver py cfg d (TextCommands e upd now) =
     (if list_ex runs_command (fst (snd (handle_text_commands py cfg e d upd now))) then None
      else Some (snd (snd (handle_text_commands py cfg e d upd now))))"

fun deliver_all :: "python \<Rightarrow> config \<Rightarrow> db \<Rightarrow> inbound list \<Rightarrow> db option" where
  "deliver_all py cfg d [] = Some d"
| "deliver_all py cfg d (x # xs) =
     (case deliver py cfg d x of
        None \<Rightarrow> None
      | Some d' \<Rightarrow> deliver_all py cfg d' xs)"

text \<open>The outbound calls with which the session engine forwards a message.\<close>

fun is_forward :: "action \<Rightarrow> bool" where
  "is_forward (SendMessage dest text) = True"
| "is_forward (ForwardMessage dest from_chat_id mid) = True"
| "is_forward a = False"

text \<open>
  The three texts that \<open>handle_all_messages\<close> hands to the profile-deletion handlers
  instead of forwarding.
\<close>

definition profile_deletion_texts :: "ustr set" where
  "profile_deletion_texts = {U ''-myname'', U ''-mym'', U ''-mymt''}"

text \<open>What the forward rule renders: the text, or the caption when there is no text.\<close>

definition message_body :: "update \<Rightarrow> ustr" where
  "message_body upd = (if message_text upd \<noteq> [] then message_text upd else message_caption upd)"

text \<open>
  The text of a forward as the amended C5 words it, to be compared with what the two
  handlers send: in signed mode the sanitised body, two newlines, an em dash, a space, the
  sanitised display name ("Nevidomyi" without a name), a space, and \<open>@\<close> with the
  sanitised handle (nothing without a handle); in anonymous mode the sanitised body alone.
\<close>

definition spec_forward_text :: "mode \<Rightarrow> tg_user \<Rightarrow> ustr \<Rightarrow> ustr" where
  "spec_forward_text m u body =
     (case m of
        sayon \<Rightarrow>
          safe_send_message body @ [10, 10, 8212, 32] @
          safe_send_message (if tu_full_name u \<noteq> [] then tu_full_name u else nevidomyi) @
          [32] @
          (if tu_username u \<noteq> [] then 64 # safe_send_message (tu_username u) else [])
      | sayson \<Rightarrow> safe_send_message body)"

text \<open>
  What the properties below assume of \<open>str.lower()\<close>:
  lowering a lowered string changes nothing; lowering and stripping whitespace can be
  done in either order; only the empty string lowers to the empty string; and a string
  made of characters of a string that lowering leaves alone is left alone too.
\<close>

definition lowercasing :: "(ustr \<Rightarrow> ustr) \<Rightarrow> bool" where
  "lowercasing lower \<longleftrightarrow>
     (\<forall>s. lower (lower s) = lower s) \<and>
     (\<forall>s. py_strip (lower s) = lower (py_strip s)) \<and>
     (\<forall>s. lower s = [] \<longleftrightarrow> s = []) \<and>
     (\<forall>s t. lower s = s \<and> set t \<subseteq> set s \<longrightarrow> lower t = t)"

section \<open>Scenarios\<close>

text \<open>An empty store, and a configuration with owner 9 and broadcast chat 777.\<close>

definition empty_db :: db where
  "empty_db =
     \<lparr>roles = Map.empty, online_modes = [], users = [], say_blocks = {},
      custom_names = Map.empty, command_aliases = [], personal_commands = [],
      personal_command_media = []\<rparr>"

definition cfg0 :: config where
  "cfg0 = \<lparr>OWNER_IDS = [9], USER_CHAT_ID = Some 777,
            COMMAND_HANDLERS = [U ''ban'', U ''ban_silent'', U ''marry'']\<rparr>"

text \<open>The two builtins on Basic Latin and Cyrillic, for the texts of the scenarios.\<close>

definition py0 :: python where
  "py0 = \<lparr>str_lower = py_lower, str_upper = py_upper\<rparr>"

definition env0 :: env where
  "env0 = \<lparr>get_chat = (\<lambda>h. None), choice = 0\<rparr>"

text \<open>Chat 100 with the templates "hug" and "hug tight"; chat 200 with a third.\<close>

definition hug_db :: db where
  "hug_db = empty_db\<lparr>personal_commands :=
     [\<lparr>pc_id = 1, pc_chat_id = 100, pc_command_name = U ''hug'',
       pc_template_text = U ''@s1 hugs @s2 @t'', pc_created_by = 9, pc_created_at = 0\<rparr>,
      \<lparr>pc_id = 2, pc_chat_id = 100, pc_command_name = U ''hug tight'',
       pc_template_text = U ''@s1 hugs @s2 tight'', pc_created_by = 9, pc_created_at = 1\<rparr>,
      \<lparr>pc_id = 3, pc_chat_id = 200, pc_command_name = U ''hug tight now'',
       pc_template_text = U ''@s1 @s2'', pc_created_by = 9, pc_created_at = 2\<rparr>]\<rparr>"

text \<open>
  The owner Alice (principal 9, handle ownerhandle), the head admin Bob (principal 7),
  and a message of a user in a chat.
\<close>

definition alice :: tg_user where
  "alice = \<lparr>tu_id = 9, tu_full_name = U ''Alice'', tu_first_name = U ''Alice'',
             tu_username = U ''ownerhandle''\<rparr>"

definition bob :: tg_user where
  "bob = \<lparr>tu_id = 7, tu_full_name = U ''Bob'', tu_first_name = U ''Bob'',
           tu_username = U ''bobby''\<rparr>"

definition msg :: "tg_user \<Rightarrow> int \<Rightarrow> ustr \<Rightarrow> update" where
  "msg u chat text =
     \<lparr>effective_user = Some u, effective_chat_id = chat, message_text = text,
      message_caption = [], reply_to_user = None, message_id = 1\<rparr>"

definition staff_db :: db where
  "staff_db = empty_db\<lparr>roles := [7 \<mapsto> head_admin]\<rparr>"

text \<open>Bob has an anonymous session that he opened in chat 600.\<close>

definition bob_anon_db :: db where
  "bob_anon_db = staff_db\<lparr>online_modes :=
     [\<lparr>om_user_id = 7, om_mode = sayson, om_started_at = 1, om_last_activity = 1,
       om_source_chat_id = Some 600\<rparr>]\<rparr>"

text \<open>The template "hug" of chat 100 (id 1) has one photo in its pool.\<close>

definition hug_media_db :: db where
  "hug_media_db = hug_db\<lparr>personal_command_media :=
     [\<lparr>pm_id = 1, pm_command_id = 1, pm_media_type = U ''photo'', pm_file_id = U ''FILE1'',
       pm_created_at = 3\<rparr>]\<rparr>"

text \<open>Alice has opened a signed session in chat 500; Bob one in chat 600.\<close>

definition alice_signed_db :: db where
  "alice_signed_db = toggle sayon cfg0 staff_db (msg alice 500 (U ''/sayon'')) 1"

definition bob_signed_db :: db where
  "bob_signed_db = toggle sayon cfg0 staff_db (msg bob 600 (U ''/sayon'')) 1"

text \<open>
  The words "ban" and "tykho" (quietly) in Cyrillic, the text "ban tykho 12345", and
  chat 100 with the aliases "ban" for \<open>ban\<close> and "ban tykho" for \<open>ban_silent\<close>.
\<close>

definition ban_word :: ustr where
  "ban_word = [1073, 1072, 1085]"

definition tykho :: ustr where
  "tykho = [1090, 1080, 1093, 1086]"

definition ban_tykho_12345 :: ustr where
  "ban_tykho_12345 = ban_word @ [32] @ tykho @ [32] @ U ''12345''"

definition alias_db :: db where
  "alias_db =
     add_command_alias py0 (add_command_alias py0 staff_db 1 100 ban_word (U ''ban'') 9)
       2 100 (ban_word @ [32] @ tykho) (U ''ban_silent'') 9"

text \<open>The phrase "adminy" (admins), which lists the administrators.\<close>

definition adminy :: ustr where
  "adminy = [1072, 1076, 1084, 1110, 1085, 1080]"

text \<open>
  Chat 100 has the templates of \<open>hug_db\<close>; Bob is head admin and has a signed session
  opened in chat 100; Carol (principal 5) has no role. Nobody is in the user directory,
  and \<open>env0\<close> finds nobody at Telegram.
\<close>

definition carol :: tg_user where
  "carol = \<lparr>tu_id = 5, tu_full_name = U ''Carol'', tu_first_name = U ''Carol'',
             tu_username = U ''carol_c''\<rparr>"

definition hug_session_db :: db where
  "hug_session_db = hug_db
     \<lparr>roles := [7 \<mapsto> head_admin],
      online_modes :=
        [\<lparr>om_user_id = 7, om_mode = sayon, om_started_at = 1, om_last_activity = 1,
          om_source_chat_id = Some 100\<rparr>]\<rparr>"

text \<open>
  Chat 100 has the templates of \<open>hug_db\<close> and Bob is in the user directory. The same
  message as typed, "Hug @Bobby_B WELL Done", and lowercased.
\<close>

definition hug_users_db :: db where
  "hug_users_db = hug_db
     \<lparr>users := [\<lparr>u_user_id = 7, u_username = U ''Bobby_B'', u_full_name = U ''Bob''\<rparr>]\<rparr>"

definition hug_typed :: ustr where
  "hug_typed = U ''Hug @Bobby_B WELL Done''"

section \<open>Properties\<close>

lemma py0_simps [simp]: "str_lower py0 = py_lower" "str_upper py0 = py_upper"
  by (simp_all add: py0_def)

lemmas str_defs =
  U_def is_space_def lower_cp_def upper_cp_def py_lower_def py_upper_def py_lstrip_def
  py_rstrip_def py_strip_def py_startswith_def py_split_def py_replace_def str_int_def

subsection \<open>Template selection\<close>

lemma find_Some_set: "find P xs = Some x \<Longrightarrow> x \<in> set xs \<and> P x"
  by (induction xs) (auto split: if_splits)

lemma find_sorted_least:
  fixes f :: "'a \<Rightarrow> int"
  assumes "sorted (map f xs)" and "find P xs = Some x" and "y \<in> set xs" and "P y"
  shows "f x \<le> f y"
  using assms
proof (induction xs)
  case Nil
  then show ?case by simp
next
  case (Cons a xs)
  show ?case
  proof (cases "P a")
    case True
    with Cons.prems have "x = a" by simp
    with Cons.prems show ?thesis by auto
  next
    case False
    with Cons.prems have "find P xs = Some x" "y \<in> set xs" "sorted (map f xs)" by auto
    with Cons.IH Cons.prems show ?thesis by blast
  qed
qed

lemma select_template_None:
  "select_template py cmds text = None \<longleftrightarrow> (\<forall>c \<in> set cmds. \<not> cmd_matches py text c)"
  by (auto simp add: select_template_def sort_commands_def find_None_iff)

text \<open>
  C4. For every store, chat and text, the template match selects at most one command
  (it returns an optional command); it selects one exactly when some command of the chat
  has a lowercased name that is a prefix of the lowercased text; and the selected command
  is a command of the chat whose name is such a prefix and whose word count is greatest
  among all commands of the chat with that property.
\<close>

theorem select_template_greatest_word_count:
  "(select_template py (get_all_personal_commands d chat) text = None \<longleftrightarrow>
      (\<forall>c \<in> set (get_all_personal_commands d chat). \<not> cmd_matches py text c)) \<and>
   (\<forall>c. select_template py (get_all_personal_commands d chat) text = Some c \<longrightarrow>
      c \<in> set (get_all_personal_commands d chat) \<and> cmd_matches py text c \<and>
      (\<forall>c' \<in> set (get_all_personal_commands d chat).
         cmd_matches py text c' \<longrightarrow> word_count c' \<le> word_count c))"
proof -
  let ?cs = "get_all_personal_commands d chat"
  let ?k = "\<lambda>c. - int (word_count c)"
  have s: "sorted (map ?k (sort_commands ?cs))"
    by (simp add: sort_commands_def)
  have "c \<in> set ?cs \<and> cmd_matches py text c \<and>
        (\<forall>c' \<in> set ?cs. cmd_matches py text c' \<longrightarrow> word_count c' \<le> word_count c)"
    if sel: "select_template py ?cs text = Some c" for c
  proof -
    from sel have f: "find (cmd_matches py text) (sort_commands ?cs) = Some c"
      by (simp add: select_template_def)
    have m: "c \<in> set ?cs" "cmd_matches py text c"
      using find_Some_set [OF f] by (simp_all add: sort_commands_def)
    have "word_count c' \<le> word_count c" if "c' \<in> set ?cs" "cmd_matches py text c'" for c'
    proof -
      from that have "c' \<in> set (sort_commands ?cs)" by (simp add: sort_commands_def)
      from find_sorted_least [OF s f this that(2)] show ?thesis by simp
    qed
    with m show ?thesis by blast
  qed
  then show ?thesis using select_template_None by blast
qed

lemma hug_selected:
  "select_template py0 (get_all_personal_commands hug_db 100) (U ''hug tight @bobby'') =
     Some \<lparr>name = U ''hug tight'', template = U ''@s1 hugs @s2 tight'', cmd_id = 2\<rparr>"
  by (simp add: select_template_def get_all_personal_commands_def hug_db_def empty_db_def
      row_cmd_def sort_commands_def word_count_def cmd_matches_def str_defs)

theorem select_template_greatest_word_count_witness:
  "select_template py0 (get_all_personal_commands hug_db 100) (U ''hug tight @bobby'') =
     Some \<lparr>name = U ''hug tight'', template = U ''@s1 hugs @s2 tight'', cmd_id = 2\<rparr> \<and>
   cmd_matches py0 (U ''hug tight @bobby'')
     \<lparr>name = U ''hug'', template = U ''@s1 hugs @s2 @t'', cmd_id = 1\<rparr> \<and>
   word_count \<lparr>name = U ''hug'', template = U ''@s1 hugs @s2 @t'', cmd_id = 1\<rparr>
     \<le> word_count \<lparr>name = U ''hug tight'', template = U ''@s1 hugs @s2 tight'', cmd_id = 2\<rparr>"
proof -
  let ?c1 = "\<lparr>name = U ''hug'', template = U ''@s1 hugs @s2 @t'', cmd_id = 1\<rparr>"
  have m: "cmd_matches py0 (U ''hug tight @bobby'') ?c1"
    by (simp add: cmd_matches_def str_defs)
  have i: "?c1 \<in> set (get_all_personal_commands hug_db 100)"
    by (simp add: get_all_personal_commands_def hug_db_def empty_db_def row_cmd_def str_defs)
  show ?thesis
    using select_template_greatest_word_count [where py = py0 and d = hug_db and chat = 100
        and ?text = "U ''hug tight @bobby''"]
      hug_selected m i
    by auto
qed

subsection \<open>Session toggles\<close>

lemma same_sessions_refl: "same_sessions d d"
  by (simp add: same_sessions_def)

lemma same_sessions_trans: "same_sessions a b \<Longrightarrow> same_sessions b c \<Longrightarrow> same_sessions a c"
  by (simp add: same_sessions_def)

lemma same_sessions_save_user: "same_sessions d (save_user_from_update d upd)"
  by (simp add: same_sessions_def save_user_from_update_def add_or_update_user_def
      split: option.splits)

lemma same_sessions_activity: "same_sessions d (update_online_activity d now u)"
  by (simp add: same_sessions_def update_online_activity_def)

lemma find_map_key:
  "map (\<lambda>r. (om_user_id r, om_mode r, om_source_chat_id r)) xs =
   map (\<lambda>r. (om_user_id r, om_mode r, om_source_chat_id r)) ys \<Longrightarrow>
   map_option om_mode (find (\<lambda>r. om_user_id r = u) xs) =
   map_option om_mode (find (\<lambda>r. om_user_id r = u) ys)"
proof (induction xs arbitrary: ys)
  case Nil
  then show ?case by simp
next
  case (Cons x xs)
  then obtain y ys' where "ys = y # ys'" by (cases ys) auto
  with Cons show ?case by auto
qed

lemma same_sessions_mode:
  "same_sessions d d' \<Longrightarrow> get_online_mode d' u = get_online_mode d u"
  unfolding same_sessions_def get_online_mode_def using find_map_key by blast

lemma same_sessions_can_use_bot:
  "same_sessions d d' \<Longrightarrow> can_use_bot cfg d' u = can_use_bot cfg d u"
  by (simp add: same_sessions_def can_use_bot_def is_head_admin_def is_gnome_def get_role_def)

lemma same_sessions_blocked:
  "same_sessions d d' \<Longrightarrow> is_say_blocked d' u = is_say_blocked d u"
  by (simp add: same_sessions_def is_say_blocked_def)

lemma same_sessions_distinct:
  assumes "same_sessions d d'"
  shows "one_session_per_principal d' = one_session_per_principal d"
proof -
  let ?k = "\<lambda>r. (om_user_id r, om_mode r, om_source_chat_id r)"
  have "map om_user_id (online_modes d') = map fst (map ?k (online_modes d'))" by simp
  also have "\<dots> = map fst (map ?k (online_modes d))"
    using assms by (simp only: same_sessions_def)
  also have "\<dots> = map om_user_id (online_modes d)" by simp
  finally show ?thesis by (simp add: one_session_per_principal_def)
qed

lemma same_sessions_handle_all_messages:
  "same_sessions d (snd (handle_all_messages cfg d upd now))"
  by (auto simp add: handle_all_messages_def session_forward_def Let_def same_sessions_refl
      same_sessions_save_user
      intro: same_sessions_trans [OF same_sessions_save_user same_sessions_activity]
      split: option.splits)

lemma same_sessions_handle_text_commands:
  "same_sessions d (snd (snd (handle_text_commands py cfg e d upd now)))"
  by (auto simp add: handle_text_commands_def after_template_def after_session_def
      session_stage_def Let_def same_sessions_refl same_sessions_activity
      split: option.splits if_splits)

lemma same_sessions_deliver: "deliver py cfg d x = Some d' \<Longrightarrow> same_sessions d d'"
  using same_sessions_handle_all_messages same_sessions_handle_text_commands
  by (cases x) (auto split: if_splits)

lemma same_sessions_deliver_all: "deliver_all py cfg d msgs = Some d' \<Longrightarrow> same_sessions d d'"
proof (induction msgs arbitrary: d)
  case Nil
  then show ?case by (simp add: same_sessions_refl)
next
  case (Cons x xs)
  then obtain d1 where x: "deliver py cfg d x = Some d1" and xs: "deliver_all py cfg d1 xs = Some d'"
    by (auto split: option.splits)
  from same_sessions_deliver [OF x] Cons.IH [OF xs] show ?case
    by (rule same_sessions_trans)
qed

lemma find_filter_neg: "find P (filter (\<lambda>r. \<not> P r) xs) = None"
  by (simp add: find_None_iff)

lemma find_append:
  "find P (xs @ ys) = (case find P xs of None \<Rightarrow> find P ys | Some x \<Rightarrow> Some x)"
  by (induction xs) auto

lemma get_online_mode_set:
  "get_online_mode (set_online_mode d now u m src) u = Some m"
  using find_filter_neg [of "\<lambda>r. om_user_id r = u" "online_modes d"]
  by (simp add: get_online_mode_def set_online_mode_def find_append)

lemma get_online_mode_source_set:
  "get_online_mode_source (set_online_mode d now u m src) u = src"
  using find_filter_neg [of "\<lambda>r. om_user_id r = u" "online_modes d"]
  by (simp add: get_online_mode_source_def set_online_mode_def find_append)

lemma get_online_mode_remove:
  "get_online_mode (remove_online_mode d u) u = None"
  using find_filter_neg [of "\<lambda>r. om_user_id r = u" "online_modes d"]
  by (simp add: get_online_mode_def remove_online_mode_def)

lemma rows_of_set_online_mode:
  "length (filter (\<lambda>r. om_user_id r = u) (online_modes (set_online_mode d now u m src))) = 1"
  by (simp add: set_online_mode_def)

lemma permitted_set_online_mode:
  "can_use_bot cfg (set_online_mode d now u m src) v = can_use_bot cfg d v"
  "is_say_blocked (set_online_mode d now u m src) v = is_say_blocked d v"
  by (simp_all add: set_online_mode_def can_use_bot_def is_head_admin_def is_gnome_def
      get_role_def is_say_blocked_def)

lemma permitted_remove_online_mode:
  "can_use_bot cfg (remove_online_mode d u) v = can_use_bot cfg d v"
  "is_say_blocked (remove_online_mode d u) v = is_say_blocked d v"
  by (simp_all add: remove_online_mode_def can_use_bot_def is_head_admin_def is_gnome_def
      get_role_def is_say_blocked_def)

lemma toggle_eq:
  assumes "effective_user upd = Some usr"
  shows "toggle m cfg d upd now =
     (let d1 = save_user_from_update d upd; u = tu_id usr in
      if \<not> permitted cfg d u then d1
      else if get_online_mode d u = Some m then remove_online_mode d1 u
      else set_online_mode d1 now u m (Some (effective_chat_id upd)))"
  using assms same_sessions_save_user [of d upd]
  by (cases m)
    (auto simp add: sayon_command_def sayson_command_def Let_def permitted_def
      same_sessions_mode same_sessions_can_use_bot same_sessions_blocked)

lemma one_session_set:
  "one_session_per_principal d \<Longrightarrow> one_session_per_principal (set_online_mode d now u m src)"
  by (auto simp add: one_session_per_principal_def set_online_mode_def distinct_map_filter)

lemma one_session_remove:
  "one_session_per_principal d \<Longrightarrow> one_session_per_principal (remove_online_mode d u)"
  by (simp add: one_session_per_principal_def remove_online_mode_def distinct_map_filter)

lemma one_session_toggle:
  assumes "one_session_per_principal d"
  shows "one_session_per_principal (toggle m cfg d upd now)"
proof (cases "effective_user upd")
  case None
  then have "toggle m cfg d upd now = d"
    by (cases m) (simp_all add: sayon_command_def sayson_command_def save_user_from_update_def)
  with assms show ?thesis by simp
next
  case (Some usr)
  have "one_session_per_principal (save_user_from_update d upd)"
    using assms same_sessions_distinct [OF same_sessions_save_user] by simp
  then show ?thesis
    by (simp add: toggle_eq [OF Some] Let_def one_session_set one_session_remove)
qed

subsection \<open>One session per principal\<close>

lemma one_session_same: "same_sessions d d' \<Longrightarrow> one_session_per_principal d \<Longrightarrow>
  one_session_per_principal d'"
  using same_sessions_distinct by blast

text \<open>
  C9. Every operation on the session store keeps at most one session per principal: the
  four store functions, both toggles and both message handlers. When a principal who may
  use the toggles has a session in one mode and invokes the toggle of the other mode, the
  session is replaced in place: afterwards the principal has exactly one session row, its
  mode is the newly toggled one and its source chat is the chat of the invocation.
\<close>

theorem session_store_one_per_principal:
  assumes inv: "one_session_per_principal d"
  shows "one_session_per_principal (set_online_mode d now u m src) \<and>
         one_session_per_principal (update_online_activity d now u) \<and>
         one_session_per_principal (remove_online_mode d u) \<and>
         one_session_per_principal (clear_all_online_modes d) \<and>
         one_session_per_principal (toggle m cfg d upd now) \<and>
         one_session_per_principal (snd (handle_all_messages cfg d upd now)) \<and>
         one_session_per_principal (snd (snd (handle_text_commands py cfg e d upd now))) \<and>
         (\<forall>usr m'. effective_user upd = Some usr \<and> permitted cfg d (tu_id usr) \<and>
              get_online_mode d (tu_id usr) = Some m' \<and> m' \<noteq> m \<longrightarrow>
            get_online_mode (toggle m cfg d upd now) (tu_id usr) = Some m \<and>
            get_online_mode_source (toggle m cfg d upd now) (tu_id usr) =
              Some (effective_chat_id upd) \<and>
            length (filter (\<lambda>r. om_user_id r = tu_id usr)
                      (online_modes (toggle m cfg d upd now))) = 1)"
proof -
  have a: "one_session_per_principal (update_online_activity d now u)"
    using inv one_session_same [OF same_sessions_activity] by blast
  have c: "one_session_per_principal (clear_all_online_modes d)"
    by (simp add: one_session_per_principal_def clear_all_online_modes_def)
  have h1: "one_session_per_principal (snd (handle_all_messages cfg d upd now))"
    using inv one_session_same [OF same_sessions_handle_all_messages] by blast
  have h2: "one_session_per_principal (snd (snd (handle_text_commands py cfg e d upd now)))"
    using inv one_session_same [OF same_sessions_handle_text_commands] by blast
  have r: "get_online_mode (toggle m cfg d upd now) (tu_id usr) = Some m \<and>
           get_online_mode_source (toggle m cfg d upd now) (tu_id usr) =
             Some (effective_chat_id upd) \<and>
           length (filter (\<lambda>r. om_user_id r = tu_id usr)
                     (online_modes (toggle m cfg d upd now))) = 1"
    if "effective_user upd = Some usr" "permitted cfg d (tu_id usr)"
       "get_online_mode d (tu_id usr) = Some m'" "m' \<noteq> m" for usr m'
  proof -
    from that have "toggle m cfg d upd now =
        set_online_mode (save_user_from_update d upd) now (tu_id usr) m (Some (effective_chat_id upd))"
      by (simp add: toggle_eq [OF that(1)] Let_def)
    then show ?thesis
      by (simp add: get_online_mode_set get_online_mode_source_set rows_of_set_online_mode)
  qed
  from inv a c h1 h2 r show ?thesis
    by (simp add: one_session_set one_session_remove one_session_toggle)
qed

lemma bob_anon_hyps:
  "one_session_per_principal bob_anon_db \<and>
   effective_user (msg bob 700 (U ''/sayon'')) = Some bob \<and>
   permitted cfg0 bob_anon_db (tu_id bob) \<and>
   get_online_mode bob_anon_db (tu_id bob) = Some sayson"
  by (simp add: one_session_per_principal_def bob_anon_db_def staff_db_def empty_db_def
      msg_def bob_def permitted_def can_use_bot_def is_owner_def cfg0_def is_head_admin_def
      get_role_def is_say_blocked_def get_online_mode_def)

theorem session_store_one_per_principal_witness:
  "one_session_per_principal bob_anon_db \<and>
   get_online_mode bob_anon_db 7 = Some sayson \<and>
   get_online_mode_source bob_anon_db 7 = Some 600 \<and>
   one_session_per_principal (toggle sayon cfg0 bob_anon_db (msg bob 700 (U ''/sayon'')) 5) \<and>
   get_online_mode (toggle sayon cfg0 bob_anon_db (msg bob 700 (U ''/sayon'')) 5) 7 = Some sayon \<and>
   get_online_mode_source (toggle sayon cfg0 bob_anon_db (msg bob 700 (U ''/sayon'')) 5) 7 =
     Some 700 \<and>
   length (filter (\<lambda>r. om_user_id r = 7)
     (online_modes (toggle sayon cfg0 bob_anon_db (msg bob 700 (U ''/sayon'')) 5))) = 1"
proof -
  have s: "get_online_mode_source bob_anon_db 7 = Some 600"
    by (simp add: get_online_mode_source_def bob_anon_db_def staff_db_def empty_db_def)
  have e: "effective_chat_id (msg bob 700 (U ''/sayon'')) = 700" "tu_id bob = 7"
    by (simp_all add: msg_def bob_def)
  from bob_anon_hyps have i: "one_session_per_principal bob_anon_db" by simp
  show ?thesis
    using bob_anon_hyps s e
      session_store_one_per_principal [OF i, where now = 5 and u = 7 and m = sayon
        and src = "Some 700" and cfg = cfg0 and upd = "msg bob 700 (U ''/sayon'')"
        and py = py0 and e = env0]
    by (metis mode.distinct(1))
qed

subsection \<open>Deleting a template\<close>

lemma delete_personal_command_media_unchanged:
  "personal_command_media (delete_personal_command py d chat_id command_name) =
   personal_command_media d"
  by (simp add: delete_personal_command_def delete_from_personal_commands_def
      get_connection_def Let_def)

text \<open>
  C8, at a concrete store. The template "hug" of chat 100 has id 1 and one photo in its
  pool. After \<open>delete_personal_command\<close> the template is gone, and
  \<open>get_personal_command_media\<close> still returns the photo under id 1: the connection
  never turns foreign keys on, so the declared \<open>ON DELETE CASCADE\<close> does not run.
\<close>

theorem delete_personal_command_leaves_media:
  "get_personal_command py0 hug_media_db 100 (U ''hug'') =
     Some \<lparr>name = U ''hug'', template = U ''@s1 hugs @s2 @t'', cmd_id = 1\<rparr> \<and>
   get_personal_command py0 (delete_personal_command py0 hug_media_db 100 (U ''hug'')) 100 (U ''hug'') =
     None \<and>
   get_personal_command_media (delete_personal_command py0 hug_media_db 100 (U ''hug'')) 1 =
     [\<lparr>pm_id = 1, pm_command_id = 1, pm_media_type = U ''photo'', pm_file_id = U ''FILE1'',
       pm_created_at = 3\<rparr>]"
  by (simp add: get_personal_command_def get_personal_command_media_def
      delete_personal_command_def delete_from_personal_commands_def get_connection_def
      hug_media_db_def hug_db_def empty_db_def row_cmd_def Let_def str_defs)

subsection \<open>Forwarding under a session\<close>

lemma find_map_source:
  "map (\<lambda>r. (om_user_id r, om_mode r, om_source_chat_id r)) xs =
   map (\<lambda>r. (om_user_id r, om_mode r, om_source_chat_id r)) ys \<Longrightarrow>
   (case find (\<lambda>r. om_user_id r = u) xs of None \<Rightarrow> None | Some r \<Rightarrow> om_source_chat_id r) =
   (case find (\<lambda>r. om_user_id r = u) ys of None \<Rightarrow> None | Some r \<Rightarrow> om_source_chat_id r)"
proof (induction xs arbitrary: ys)
  case Nil
  then show ?case by simp
next
  case (Cons x xs)
  then obtain y ys' where "ys = y # ys'" by (cases ys) auto
  with Cons show ?case by auto
qed

lemma same_sessions_source:
  "same_sessions d d' \<Longrightarrow> get_online_mode_source d' u = get_online_mode_source d u"
  unfolding same_sessions_def get_online_mode_source_def using find_map_source by blast

text \<open>When \<open>handle_all_messages\<close> reaches the forward.\<close>

lemma handle_all_messages_forward:
  assumes "effective_user upd = Some u"
    and "can_use_bot cfg d (tu_id u)"
    and "py_strip (message_text upd) \<notin> profile_deletion_texts"
    and "USER_CHAT_ID cfg = Some dest" and "dest \<noteq> 0"
    and "get_online_mode d (tu_id u) = Some m"
    and "is_owner cfg (tu_id u) \<or> get_online_mode_source d (tu_id u) = Some (effective_chat_id upd)"
  shows "fst (handle_all_messages cfg d upd now) = forward_message dest u upd m"
  using assms same_sessions_save_user [of d upd]
  by (auto simp add: handle_all_messages_def session_forward_def Let_def
      profile_deletion_texts_def same_sessions_mode same_sessions_source
      same_sessions_can_use_bot)

lemma handle_all_messages_blocked:
  assumes "effective_user upd = Some u"
    and "\<not> is_owner cfg (tu_id u)"
    and "get_online_mode_source d (tu_id u) \<noteq> Some (effective_chat_id upd)"
  shows "\<forall>a \<in> set (fst (handle_all_messages cfg d upd now)). \<not> is_forward a"
  using assms same_sessions_save_user [of d upd]
  by (auto simp add: handle_all_messages_def session_forward_def Let_def
      same_sessions_mode same_sessions_source split: option.splits)


lemma no_forward_cleanup: "\<forall>a \<in> set (cleanup text). \<not> is_forward a"
  by (simp add: cleanup_def)

lemma no_forward_send_rendered:
  "\<forall>a \<in> set (send_rendered d e chat_id command_id result_text). \<not> is_forward a"
  by (auto simp add: send_rendered_def Let_def)

lemma no_forward_template:
  "template_stage py d e upd u text = Some acts \<Longrightarrow> \<forall>a \<in> set acts. \<not> is_forward a"
  using no_forward_send_rendered
  by (auto simp add: template_stage_def Let_def split: option.splits if_splits)

lemma no_forward_phrase:
  "phrase_stage cfg text = Some acts \<Longrightarrow> \<forall>a \<in> set acts. \<not> is_forward a"
  by (auto simp add: phrase_stage_def unmarry_def Let_def split: if_splits)

lemma no_forward_restore:
  "restore_stage py cfg user_id text = Some acts \<Longrightarrow> \<forall>a \<in> set acts. \<not> is_forward a"
  by (auto simp add: restore_stage_def split: option.splits if_splits)

lemma no_forward_alias:
  "alias_stage py cfg d chat_id text = Some acts \<Longrightarrow> \<forall>a \<in> set acts. \<not> is_forward a"
  by (auto simp add: alias_stage_def Let_def split: option.splits if_splits)

lemma session_stage_other_chat:
  "\<not> is_owner cfg (tu_id u) \<Longrightarrow>
   get_online_mode_source d (tu_id u) \<noteq> Some (effective_chat_id upd) \<Longrightarrow>
   session_stage cfg d upd u now = None"
  by (simp add: session_stage_def Let_def split: option.splits)

lemma after_template_blocked:
  assumes "\<not> is_owner cfg (tu_id u)"
    and "get_online_mode_source d (tu_id u) \<noteq> Some (effective_chat_id upd)"
    and "\<forall>a \<in> set pre. \<not> is_forward a"
  shows "\<forall>a \<in> set (fst (snd (after_template py cfg d upd u text pre now))). \<not> is_forward a"
  using assms session_stage_other_chat [OF assms(1) assms(2)]
    no_forward_phrase [of cfg "text"] no_forward_restore [of py cfg "tu_id u" "text"]
    no_forward_alias [of py cfg d "effective_chat_id upd" "text"]
  by (auto simp add: after_template_def after_session_def Let_def split: option.splits)

lemma handle_text_commands_blocked:
  assumes "effective_user upd = Some u"
    and "\<not> is_owner cfg (tu_id u)"
    and "get_online_mode_source d (tu_id u) \<noteq> Some (effective_chat_id upd)"
  shows "\<forall>a \<in> set (fst (snd (handle_text_commands py cfg e d upd now))). \<not> is_forward a"
proof -
  let ?text = "str_lower py (py_strip (message_text upd))"
  show ?thesis
  proof (cases "template_stage py d e upd u ?text")
    case None
    then show ?thesis
      using assms(1) after_template_blocked [OF assms(2) assms(3) no_forward_cleanup]
      by (simp add: handle_text_commands_def Let_def)
  next
    case (Some acts)
    then show ?thesis
      using assms(1) no_forward_template [OF Some] no_forward_cleanup [of ?text]
      by (auto simp add: handle_text_commands_def Let_def)
  qed
qed

text \<open>When \<open>handle_text_commands\<close> ends in the session stage with a forward.\<close>

lemma handle_text_commands_session:
  assumes "effective_user upd = Some u" and "message_text upd \<noteq> []" and "tu_id u \<noteq> 0"
    and "template_stage py d e upd u (str_lower py (py_strip (message_text upd))) = None"
    and "is_owner cfg (tu_id u) \<or> get_role d (tu_id u) = Some head_admin"
    and "get_online_mode d (tu_id u) = Some m"
    and "is_owner cfg (tu_id u) \<or> get_online_mode_source d (tu_id u) = Some (effective_chat_id upd)"
    and "USER_CHAT_ID cfg = Some dest" and "dest \<noteq> 0"
  shows "handle_text_commands py cfg e d upd now =
     (Session, cleanup (str_lower py (py_strip (message_text upd))) @ forward_text dest u upd m,
      update_online_activity d now (tu_id u))"
  using assms
  by (auto simp add: handle_text_commands_def after_template_def session_stage_def Let_def)

lemma forward_message_forwards: "\<exists>a \<in> set (forward_message dest u upd m). is_forward a"
  by (cases m) (simp_all add: forward_message_def)

lemma forward_text_forwards:
  "message_text upd \<noteq> [] \<Longrightarrow> \<exists>a \<in> set (forward_text dest u upd m). is_forward a"
  by (cases m) (simp_all add: forward_text_def)

lemmas store_defs =
  get_role_def get_custom_name_def is_say_blocked_def set_online_mode_def
  update_online_activity_def get_online_mode_def get_online_mode_source_def
  remove_online_mode_def add_or_update_user_def save_user_from_update_def
  is_owner_def is_head_admin_def is_gnome_def can_use_bot_def

lemma alice_signed_db_eq:
  "alice_signed_db = staff_db
     \<lparr>online_modes :=
        [\<lparr>om_user_id = 9, om_mode = sayon, om_started_at = 1, om_last_activity = 1,
          om_source_chat_id = Some 500\<rparr>],
      users := [\<lparr>u_user_id = 9, u_username = U ''ownerhandle'', u_full_name = U ''Alice''\<rparr>]\<rparr>"
  by (simp add: alice_signed_db_def sayon_command_def staff_db_def empty_db_def cfg0_def
      msg_def alice_def store_defs)

lemma bob_signed_db_eq:
  "bob_signed_db = staff_db
     \<lparr>online_modes :=
        [\<lparr>om_user_id = 7, om_mode = sayon, om_started_at = 1, om_last_activity = 1,
          om_source_chat_id = Some 600\<rparr>],
      users := [\<lparr>u_user_id = 7, u_username = U ''bobby'', u_full_name = U ''Bob''\<rparr>]\<rparr>"
  by (simp add: bob_signed_db_def sayon_command_def staff_db_def empty_db_def cfg0_def
      msg_def bob_def store_defs)

lemma save_user_chat:
  "save_user_from_update d (upd\<lparr>effective_chat_id := c\<rparr>) = save_user_from_update d upd"
  by (simp add: save_user_from_update_def)

lemma forward_message_chat:
  "(\<exists>a \<in> set (forward_message dest u (upd\<lparr>effective_chat_id := c\<rparr>) m). is_forward a) \<and>
   (\<exists>a \<in> set (forward_message dest u upd m). is_forward a)"
  by (simp add: forward_message_forwards)

lemma owner_forward_any_chat:
  assumes "effective_user upd = Some u" and "is_owner cfg (tu_id u)"
  shows "(\<exists>a \<in> set (fst (handle_all_messages cfg d (upd\<lparr>effective_chat_id := c\<rparr>) now)). is_forward a) \<longleftrightarrow>
         (\<exists>a \<in> set (fst (handle_all_messages cfg d upd now)). is_forward a)"
proof -
  let ?d = "save_user_from_update d upd"
  show ?thesis
  proof (cases "get_online_mode ?d (tu_id u)")
    case None
    then show ?thesis
      using assms
      by (auto simp add: handle_all_messages_def session_forward_def save_user_chat Let_def
          split: option.splits)
  next
    case (Some m)
    have "session_forward cfg ?d dest u v now =
        (forward_message dest u v m, update_online_activity ?d now (tu_id u))" for dest v
      using Some assms(2) by (simp add: session_forward_def Let_def)
    then show ?thesis
      using assms forward_message_chat [where u = u and upd = upd and c = c and m = m]
      by (auto simp add: handle_all_messages_def save_user_chat Let_def split: option.splits)
  qed
qed

text \<open>
  C6. A principal has an active session. If the principal is not an owner and the chat
  of the message is not the session's source chat, neither handler forwards anything
  (no \<open>SendMessage\<close>, no \<open>ForwardMessage\<close>). If the principal is an owner, the message
  is forwarded whatever its chat is: \<open>handle_all_messages\<close> forwards it whenever the
  broadcast chat is configured and the text is not one of the three profile-deletion
  texts, and \<open>handle_text_commands\<close> forwards it whenever the broadcast chat is
  configured and the template stage has not ended the dispatch. Whether
  \<open>handle_all_messages\<close> forwards an owner's message does not depend on the chat at all.
\<close>

theorem source_affinity:
  assumes eu: "effective_user upd = Some u"
    and mode: "get_online_mode d (tu_id u) = Some m"
  shows
   "(\<not> is_owner cfg (tu_id u) \<and>
     get_online_mode_source d (tu_id u) \<noteq> Some (effective_chat_id upd) \<longrightarrow>
       (\<forall>a \<in> set (fst (handle_all_messages cfg d upd now)). \<not> is_forward a) \<and>
       (\<forall>a \<in> set (fst (snd (handle_text_commands py cfg e d upd now))). \<not> is_forward a)) \<and>
    (is_owner cfg (tu_id u) \<and> USER_CHAT_ID cfg = Some dest \<and> dest \<noteq> 0 \<and>
     py_strip (message_text upd) \<notin> profile_deletion_texts \<longrightarrow>
       fst (handle_all_messages cfg d upd now) = forward_message dest u upd m \<and>
       (\<exists>a \<in> set (fst (handle_all_messages cfg d upd now)). is_forward a)) \<and>
    (is_owner cfg (tu_id u) \<and> USER_CHAT_ID cfg = Some dest \<and> dest \<noteq> 0 \<and>
     message_text upd \<noteq> [] \<and> tu_id u \<noteq> 0 \<and>
     template_stage py d e upd u (str_lower py (py_strip (message_text upd))) = None \<longrightarrow>
       fst (snd (handle_text_commands py cfg e d upd now)) =
         cleanup (str_lower py (py_strip (message_text upd))) @ forward_text dest u upd m \<and>
       (\<exists>a \<in> set (fst (snd (handle_text_commands py cfg e d upd now))). is_forward a)) \<and>
    (is_owner cfg (tu_id u) \<longrightarrow>
       (\<forall>c. (\<exists>a \<in> set (fst (handle_all_messages cfg d (upd\<lparr>effective_chat_id := c\<rparr>) now)).
                is_forward a) \<longleftrightarrow>
            (\<exists>a \<in> set (fst (handle_all_messages cfg d upd now)). is_forward a)))"
proof (intro conjI impI)
  assume a: "\<not> is_owner cfg (tu_id u) \<and>
     get_online_mode_source d (tu_id u) \<noteq> Some (effective_chat_id upd)"
  show "\<forall>a \<in> set (fst (handle_all_messages cfg d upd now)). \<not> is_forward a"
    using handle_all_messages_blocked [OF eu] a by blast
  show "\<forall>a \<in> set (fst (snd (handle_text_commands py cfg e d upd now))). \<not> is_forward a"
    using handle_text_commands_blocked [OF eu] a by blast
next
  assume a: "is_owner cfg (tu_id u) \<and> USER_CHAT_ID cfg = Some dest \<and> dest \<noteq> 0 \<and>
     py_strip (message_text upd) \<notin> profile_deletion_texts"
  then have c: "can_use_bot cfg d (tu_id u)" by (simp add: can_use_bot_def)
  show f: "fst (handle_all_messages cfg d upd now) = forward_message dest u upd m"
    using handle_all_messages_forward [OF eu c _ _ _ mode] a by blast
  show "\<exists>a \<in> set (fst (handle_all_messages cfg d upd now)). is_forward a"
    using f forward_message_forwards by simp
next
  assume a: "is_owner cfg (tu_id u) \<and> USER_CHAT_ID cfg = Some dest \<and> dest \<noteq> 0 \<and>
     message_text upd \<noteq> [] \<and> tu_id u \<noteq> 0 \<and>
     template_stage py d e upd u (str_lower py (py_strip (message_text upd))) = None"
  then have "handle_text_commands py cfg e d upd now =
     (Session, cleanup (str_lower py (py_strip (message_text upd))) @ forward_text dest u upd m,
      update_online_activity d now (tu_id u))"
    using handle_text_commands_session [OF eu _ _ _ _ mode] by blast
  then show f: "fst (snd (handle_text_commands py cfg e d upd now)) =
         cleanup (str_lower py (py_strip (message_text upd))) @ forward_text dest u upd m"
    by simp
  show "\<exists>a \<in> set (fst (snd (handle_text_commands py cfg e d upd now))). is_forward a"
    using f forward_text_forwards [of upd dest u m] a by auto
next
  assume "is_owner cfg (tu_id u)"
  then show "\<forall>c. (\<exists>a \<in> set (fst (handle_all_messages cfg d (upd\<lparr>effective_chat_id := c\<rparr>) now)).
                is_forward a) \<longleftrightarrow>
            (\<exists>a \<in> set (fst (handle_all_messages cfg d upd now)). is_forward a)"
    using owner_forward_any_chat [OF eu] by blast
qed


lemma bob_other_chat_hyps:
  "effective_user (msg bob 700 (U ''hello'')) = Some bob \<and>
   get_online_mode bob_signed_db (tu_id bob) = Some sayon \<and>
   \<not> is_owner cfg0 (tu_id bob) \<and>
   get_online_mode_source bob_signed_db (tu_id bob) = Some 600 \<and>
   effective_chat_id (msg bob 700 (U ''hello'')) = 700"
  by (simp add: bob_signed_db_eq staff_db_def empty_db_def cfg0_def msg_def bob_def store_defs)

lemma alice_other_chat_hyps:
  "effective_user (msg alice 700 (U ''hello'')) = Some alice \<and>
   get_online_mode alice_signed_db (tu_id alice) = Some sayon \<and>
   get_online_mode_source alice_signed_db (tu_id alice) = Some 500 \<and>
   is_owner cfg0 (tu_id alice) \<and> USER_CHAT_ID cfg0 = Some 777 \<and>
   py_strip (message_text (msg alice 700 (U ''hello''))) \<notin> profile_deletion_texts"
  by (simp add: alice_signed_db_eq staff_db_def empty_db_def cfg0_def msg_def alice_def
      profile_deletion_texts_def store_defs str_defs)

theorem source_affinity_witness:
  "get_online_mode bob_signed_db 7 = Some sayon \<and>
   get_online_mode_source bob_signed_db 7 = Some 600 \<and>
   list_all (\<lambda>a. \<not> is_forward a)
     (fst (handle_all_messages cfg0 bob_signed_db (msg bob 700 (U ''hello'')) 2)) \<and>
   list_all (\<lambda>a. \<not> is_forward a)
     (fst (snd (handle_text_commands py0 cfg0 env0 bob_signed_db (msg bob 700 (U ''hello'')) 2))) \<and>
   get_online_mode alice_signed_db 9 = Some sayon \<and>
   get_online_mode_source alice_signed_db 9 = Some 500 \<and>
   fst (handle_all_messages cfg0 alice_signed_db (msg alice 700 (U ''hello'')) 2) =
     forward_message 777 alice (msg alice 700 (U ''hello'')) sayon \<and>
   list_ex is_forward
     (fst (handle_all_messages cfg0 alice_signed_db (msg alice 700 (U ''hello'')) 2))"
proof -
  have b: "tu_id bob = 7" and a: "tu_id alice = 9"
    by (simp_all add: bob_def alice_def)
  have 1: "list_all (\<lambda>a. \<not> is_forward a)
       (fst (handle_all_messages cfg0 bob_signed_db (msg bob 700 (U ''hello'')) 2)) \<and>
     list_all (\<lambda>a. \<not> is_forward a)
       (fst (snd (handle_text_commands py0 cfg0 env0 bob_signed_db (msg bob 700 (U ''hello'')) 2)))"
    using bob_other_chat_hyps
      source_affinity [where upd = "msg bob 700 (U ''hello'')" and u = bob and d = bob_signed_db
        and m = sayon and cfg = cfg0 and py = py0 and now = 2 and e = env0]
    by (simp add: list_all_iff)
  have 2: "fst (handle_all_messages cfg0 alice_signed_db (msg alice 700 (U ''hello'')) 2) =
       forward_message 777 alice (msg alice 700 (U ''hello'')) sayon \<and>
     list_ex is_forward
       (fst (handle_all_messages cfg0 alice_signed_db (msg alice 700 (U ''hello'')) 2))"
    using alice_other_chat_hyps
      source_affinity [where upd = "msg alice 700 (U ''hello'')" and u = alice
        and d = alice_signed_db and m = sayon and cfg = cfg0 and py = py0 and dest = 777 and now = 2
        and e = env0]
    by (auto simp add: list_ex_iff)
  have 3: "get_online_mode bob_signed_db 7 = Some sayon \<and>
     get_online_mode_source bob_signed_db 7 = Some 600 \<and>
     get_online_mode alice_signed_db 9 = Some sayon \<and>
     get_online_mode_source alice_signed_db 9 = Some 500"
    using bob_other_chat_hyps alice_other_chat_hyps a b by simp
  from 1 2 3 show ?thesis by blast
qed


lemma forward_text_spec:
  "message_body upd \<noteq> [] \<Longrightarrow>
   forward_text dest u upd m = [SendMessage dest (spec_forward_text m u (message_body upd))]"
  by (cases m)
    (auto simp add: forward_text_def spec_forward_text_def signature_def message_body_def Let_def)

lemma forward_message_spec:
  "message_body upd \<noteq> [] \<Longrightarrow>
   forward_message dest u upd m = [SendMessage dest (spec_forward_text m u (message_body upd))]"
  by (cases m)
    (auto simp add: forward_message_def spec_forward_text_def signature_def message_body_def
      Let_def)

text \<open>
  C5, as the code has it. A principal with an active session sends a text or a caption
  that one of the two handlers forwards. What \<open>handle_text_commands\<close> sends at its
  session stage, and what \<open>handle_all_messages\<close> sends, is one message to the broadcast
  chat: in signed mode the sanitised body followed by one signature, which is two
  newlines, an em dash, a space, the sanitised display name ("Nevidomyi" without a name),
  a space, and \<open>@\<close> with the sanitised handle (nothing without a handle), with no
  parentheses around the handle; in anonymous mode the sanitised body alone. Both
  forwarding functions give this for every text and every caption.
\<close>

theorem signed_forward_signature:
  assumes "effective_user upd = Some u"
    and "USER_CHAT_ID cfg = Some dest" and "dest \<noteq> 0"
    and "get_online_mode d (tu_id u) = Some m"
    and "is_owner cfg (tu_id u) \<or> get_online_mode_source d (tu_id u) = Some (effective_chat_id upd)"
    and "message_body upd \<noteq> []"
  shows
    "forward_text dest u upd m = [SendMessage dest (spec_forward_text m u (message_body upd))] \<and>
     forward_message dest u upd m =
       [SendMessage dest (spec_forward_text m u (message_body upd))] \<and>
     (message_text upd \<noteq> [] \<and> tu_id u \<noteq> 0 \<and>
      template_stage py d e upd u (str_lower py (py_strip (message_text upd))) = None \<and>
      (is_owner cfg (tu_id u) \<or> get_role d (tu_id u) = Some head_admin) \<longrightarrow>
        handle_text_commands py cfg e d upd now =
          (Session,
           cleanup (str_lower py (py_strip (message_text upd))) @
           [SendMessage dest (spec_forward_text m u (message_text upd))],
           update_online_activity d now (tu_id u))) \<and>
     (can_use_bot cfg d (tu_id u) \<and> py_strip (message_text upd) \<notin> profile_deletion_texts \<longrightarrow>
        fst (handle_all_messages cfg d upd now) =
          [SendMessage dest (spec_forward_text m u (message_body upd))])"
proof (intro conjI impI)
  show "forward_text dest u upd m = [SendMessage dest (spec_forward_text m u (message_body upd))]"
    using assms(6) by (rule forward_text_spec)
  show "forward_message dest u upd m =
      [SendMessage dest (spec_forward_text m u (message_body upd))]"
    using assms(6) by (rule forward_message_spec)
next
  assume a: "message_text upd \<noteq> [] \<and> tu_id u \<noteq> 0 \<and>
      template_stage py d e upd u (str_lower py (py_strip (message_text upd))) = None \<and>
      (is_owner cfg (tu_id u) \<or> get_role d (tu_id u) = Some head_admin)"
  then have b: "message_body upd = message_text upd"
    by (simp add: message_body_def)
  have "handle_text_commands py cfg e d upd now =
     (Session, cleanup (str_lower py (py_strip (message_text upd))) @ forward_text dest u upd m,
      update_online_activity d now (tu_id u))"
    using handle_text_commands_session [OF assms(1) _ _ _ _ assms(4) assms(5) assms(2) assms(3)] a
    by blast
  then show "handle_text_commands py cfg e d upd now =
          (Session,
           cleanup (str_lower py (py_strip (message_text upd))) @
           [SendMessage dest (spec_forward_text m u (message_text upd))],
           update_online_activity d now (tu_id u))"
    using forward_text_spec [OF assms(6), of dest u m] b by simp
next
  assume a: "can_use_bot cfg d (tu_id u) \<and> py_strip (message_text upd) \<notin> profile_deletion_texts"
  have "fst (handle_all_messages cfg d upd now) = forward_message dest u upd m"
    using handle_all_messages_forward [OF assms(1) _ _ assms(2) assms(3) assms(4) assms(5)] a
    by blast
  then show "fst (handle_all_messages cfg d upd now) =
          [SendMessage dest (spec_forward_text m u (message_body upd))]"
    using forward_message_spec [OF assms(6), of dest u m] by simp
qed

lemma alice_hello_facts:
  shows "effective_user (msg alice 500 (U ''hello'')) = Some alice"
    and "can_use_bot cfg0 alice_signed_db (tu_id alice)"
    and "py_strip (message_text (msg alice 500 (U ''hello''))) \<notin> profile_deletion_texts"
    and "USER_CHAT_ID cfg0 = Some 777"
    and "get_online_mode alice_signed_db (tu_id alice) = Some sayon"
    and "is_owner cfg0 (tu_id alice)"
    and "message_body (msg alice 500 (U ''hello'')) \<noteq> []"
    and "message_text (msg alice 500 (U ''hello'')) \<noteq> []"
    and "tu_id alice \<noteq> 0"
    and "template_stage py0 alice_signed_db env0 (msg alice 500 (U ''hello'')) alice
           (str_lower py0 (py_strip (message_text (msg alice 500 (U ''hello''))))) = None"
  by (simp_all add: alice_signed_db_eq staff_db_def empty_db_def cfg0_def msg_def alice_def
      message_body_def profile_deletion_texts_def store_defs str_defs
      template_stage_def select_template_def sort_commands_def get_all_personal_commands_def)

lemma alice_hello_values:
  shows "tu_id alice = 9"
    and "message_body (msg alice 500 (U ''hello'')) = U ''hello''"
    and "message_text (msg alice 500 (U ''hello'')) = U ''hello''"
    and "cleanup (str_lower py0 (py_strip (U ''hello''))) = []"
    and "spec_forward_text sayon alice (U ''hello'') =
           U ''hello'' @ [10, 10, 8212, 32] @ U ''Alice @ownerhandle''"
  by (simp_all add: alice_def msg_def message_body_def cleanup_def spec_forward_text_def
      safe_send_message_def str_defs)

theorem signed_forward_signature_witness:
  "get_online_mode alice_signed_db 9 = Some sayon \<and>
   handle_text_commands py0 cfg0 env0 alice_signed_db (msg alice 500 (U ''hello'')) 2 =
     (Session,
      [SendMessage 777 (U ''hello'' @ [10, 10, 8212, 32] @ U ''Alice @ownerhandle'')],
      update_online_activity alice_signed_db 2 9) \<and>
   fst (handle_all_messages cfg0 alice_signed_db (msg alice 500 (U ''hello'')) 2) =
     [SendMessage 777 (U ''hello'' @ [10, 10, 8212, 32] @ U ''Alice @ownerhandle'')]"
proof -
  let ?upd = "msg alice 500 (U ''hello'')"
  note f = alice_hello_facts
  have h3: "(777::int) \<noteq> 0" by simp
  have h5: "is_owner cfg0 (tu_id alice) \<or>
      get_online_mode_source alice_signed_db (tu_id alice) = Some (effective_chat_id ?upd)"
    using f(6) by blast
  have t: "message_text ?upd \<noteq> [] \<and> tu_id alice \<noteq> 0 \<and>
      template_stage py0 alice_signed_db env0 ?upd alice
        (str_lower py0 (py_strip (message_text ?upd))) = None \<and>
      (is_owner cfg0 (tu_id alice) \<or> get_role alice_signed_db (tu_id alice) = Some head_admin)"
    using f(6) f(8) f(9) f(10) by blast
  have a: "can_use_bot cfg0 alice_signed_db (tu_id alice) \<and>
      py_strip (message_text ?upd) \<notin> profile_deletion_texts"
    using f(2) f(3) by blast
  from signed_forward_signature [OF f(1) f(4) h3 f(5) h5 f(7), where py = py0 and e = env0
      and now = 2] t a
  have "handle_text_commands py0 cfg0 env0 alice_signed_db ?upd 2 =
          (Session,
           cleanup (str_lower py0 (py_strip (message_text ?upd))) @
           [SendMessage 777 (spec_forward_text sayon alice (message_text ?upd))],
           update_online_activity alice_signed_db 2 (tu_id alice)) \<and>
        fst (handle_all_messages cfg0 alice_signed_db ?upd 2) =
          [SendMessage 777 (spec_forward_text sayon alice (message_body ?upd))]"
    by blast
  then have "handle_text_commands py0 cfg0 env0 alice_signed_db ?upd 2 =
          (Session,
           [SendMessage 777 (U ''hello'' @ [10, 10, 8212, 32] @ U ''Alice @ownerhandle'')],
           update_online_activity alice_signed_db 2 9) \<and>
        fst (handle_all_messages cfg0 alice_signed_db ?upd 2) =
          [SendMessage 777 (U ''hello'' @ [10, 10, 8212, 32] @ U ''Alice @ownerhandle'')]"
    unfolding alice_hello_values by simp
  moreover have "get_online_mode alice_signed_db 9 = Some sayon"
    using f(5) unfolding alice_hello_values .
  ultimately show ?thesis by blast
qed

lemma alice_hello_dispatch:
  "handle_text_commands py0 cfg0 env0 alice_signed_db (msg alice 500 (U ''hello'')) 2 =
     (Session,
      [SendMessage 777 (U ''hello'' @ [10, 10, 8212, 32] @ U ''Alice @ownerhandle'')],
      update_online_activity alice_signed_db 2 9)"
proof -
  let ?upd = "msg alice 500 (U ''hello'')"
  note f = alice_hello_facts
  have h3: "(777::int) \<noteq> 0" by simp
  have o: "is_owner cfg0 (tu_id alice) \<or> get_role alice_signed_db (tu_id alice) = Some head_admin"
    "is_owner cfg0 (tu_id alice) \<or>
      get_online_mode_source alice_signed_db (tu_id alice) = Some (effective_chat_id ?upd)"
    using f(6) by blast+
  have "handle_text_commands py0 cfg0 env0 alice_signed_db ?upd 2 =
     (Session,
      cleanup (str_lower py0 (py_strip (message_text ?upd))) @ forward_text 777 alice ?upd sayon,
      update_online_activity alice_signed_db 2 (tu_id alice))"
    using f(1) f(8) f(9) f(10) o(1) f(5) o(2) f(4) h3 by (rule handle_text_commands_session)
  moreover have "forward_text 777 alice ?upd sayon =
      [SendMessage 777 (spec_forward_text sayon alice (message_body ?upd))]"
    using f(7) by (rule forward_text_spec)
  ultimately show ?thesis
    unfolding alice_hello_values by simp
qed

lemma alice_hello_all_messages:
  "fst (handle_all_messages cfg0 alice_signed_db (msg alice 500 (U ''hello'')) 2) =
     [SendMessage 777 (U ''hello'' @ [10, 10, 8212, 32] @ U ''Alice @ownerhandle'')]"
proof -
  let ?upd = "msg alice 500 (U ''hello'')"
  note f = alice_hello_facts
  have h3: "(777::int) \<noteq> 0" by simp
  have o: "is_owner cfg0 (tu_id alice) \<or>
      get_online_mode_source alice_signed_db (tu_id alice) = Some (effective_chat_id ?upd)"
    using f(6) by blast
  have "fst (handle_all_messages cfg0 alice_signed_db ?upd 2) = forward_message 777 alice ?upd sayon"
    using f(1) f(2) f(3) f(4) h3 f(5) o by (rule handle_all_messages_forward)
  moreover have "forward_message 777 alice ?upd sayon =
      [SendMessage 777 (spec_forward_text sayon alice (message_body ?upd))]"
    using f(7) by (rule forward_message_spec)
  ultimately show ?thesis
    unfolding alice_hello_values by simp
qed

text \<open>
  The example of C5 as stated: Alice, owner with handle ownerhandle, sends "hello" under
  a signed session. What \<open>handle_text_commands\<close> sends is "hello", two newlines, and
  "-- Alice @ownerhandle"; neither handler sends "-- Alice (@ownerhandle)".
\<close>

theorem signed_forward_parentheses_counterexample:
  "get_online_mode alice_signed_db 9 = Some sayon \<and>
   fst (snd (handle_text_commands py0 cfg0 env0 alice_signed_db (msg alice 500 (U ''hello'')) 2)) =
     [SendMessage 777 (U ''hello'' @ [10, 10, 8212, 32] @ U ''Alice @ownerhandle'')] \<and>
   fst (snd (handle_text_commands py0 cfg0 env0 alice_signed_db (msg alice 500 (U ''hello'')) 2)) \<noteq>
     [SendMessage 777 (U ''hello'' @ [10, 10, 8212, 32] @ U ''Alice (@ownerhandle)'')] \<and>
   fst (handle_all_messages cfg0 alice_signed_db (msg alice 500 (U ''hello'')) 2) \<noteq>
     [SendMessage 777 (U ''hello'' @ [10, 10, 8212, 32] @ U ''Alice (@ownerhandle)'')]"
proof -
  have n: "U ''hello'' @ [10, 10, 8212, 32] @ U ''Alice @ownerhandle'' \<noteq>
      U ''hello'' @ [10, 10, 8212, 32] @ U ''Alice (@ownerhandle)''"
    by (simp add: U_def)
  have m: "get_online_mode alice_signed_db 9 = Some sayon"
    using alice_hello_facts(5) unfolding alice_hello_values .
  show ?thesis
    unfolding alice_hello_dispatch alice_hello_all_messages using n m by simp
qed

subsection \<open>Stages after the template\<close>

lemma handle_text_commands_after_session:
  assumes "effective_user upd = Some u" and "message_text upd \<noteq> []" and "tu_id u \<noteq> 0"
    and "template_stage py d e upd u (str_lower py (py_strip (message_text upd))) = None"
    and "is_owner cfg (tu_id u) \<or> get_role d (tu_id u) = Some head_admin"
    and "session_stage cfg d upd u now = None"
  shows "handle_text_commands py cfg e d upd now =
     after_session py cfg d upd u (str_lower py (py_strip (message_text upd)))
       (cleanup (str_lower py (py_strip (message_text upd))))"
  using assms by (auto simp add: handle_text_commands_def after_template_def Let_def)

lemmas scenario_defs =
  empty_db_def cfg0_def env0_def staff_db_def alice_def bob_def msg_def

lemmas lookup_defs = store_defs add_command_alias_def get_command_alias_def
  get_all_personal_commands_def

lemma alias_db_eq:
  "alias_db = staff_db\<lparr>command_aliases :=
     [\<lparr>ca_chat_id = 100, ca_alias_name = ban_word, ca_target_command = U ''ban'',
       ca_created_by = 9, ca_created_at = 1\<rparr>,
      \<lparr>ca_chat_id = 100, ca_alias_name = ban_word @ [32] @ tykho,
       ca_target_command = U ''ban_silent'', ca_created_by = 9, ca_created_at = 2\<rparr>]\<rparr>"
  by (simp add: alias_db_def add_command_alias_def staff_db_def empty_db_def ban_word_def
      tykho_def str_defs)

lemma ban_tykho_split:
  "py_lower (py_strip ban_tykho_12345) = ban_tykho_12345"
  "py_split ban_tykho_12345 = [ban_word, tykho, U ''12345'']"
  by (simp_all add: ban_tykho_12345_def ban_word_def tykho_def str_defs)

lemma ban_tykho_hyps:
  "effective_user (msg bob 100 ban_tykho_12345) = Some bob \<and>
   message_text (msg bob 100 ban_tykho_12345) = ban_tykho_12345 \<and>
   ban_tykho_12345 \<noteq> [] \<and> tu_id bob \<noteq> 0 \<and>
   template_stage py0 alias_db env0 (msg bob 100 ban_tykho_12345) bob ban_tykho_12345 = None \<and>
   get_role alias_db (tu_id bob) = Some head_admin \<and>
   session_stage cfg0 alias_db (msg bob 100 ban_tykho_12345) bob 3 = None \<and>
   phrase_stage cfg0 ban_tykho_12345 = None \<and>
   restore_stage py0 cfg0 (tu_id bob) ban_tykho_12345 = None \<and>
   effective_chat_id (msg bob 100 ban_tykho_12345) = 100 \<and>
   get_command_alias py0 alias_db 100 ban_word = Some (U ''ban'') \<and>
   get_command_alias py0 alias_db 100 (ban_word @ [32] @ tykho) = Some (U ''ban_silent'') \<and>
   cleanup ban_tykho_12345 = []"
  apply (intro conjI)
  apply (simp_all add: alias_db_eq scenario_defs lookup_defs template_stage_def select_template_def
      sort_commands_def session_stage_def cleanup_def)
  apply (simp_all add: ban_tykho_12345_def ban_word_def tykho_def str_defs)
  apply (simp_all add: phrase_stage_def phrases_giveperm_def phrases_giveperm_simple_def
      phrases_removeperm_def phrases_admin_list_def odruzhyty_def rozluchyty_def rozluchy_def
      restore_stage_def kod_def match_code_def is_hex_upper_def is_hex_ci_def str_defs)
  done


lemma after_session_stage:
  "fst (after_session py cfg d upd u txt pre) \<in> {Phrase, RestoreToken, Alias, NoMatch}"
  by (simp add: after_session_def split: option.splits)

text \<open>
  C2, as the code has it. The dispatch reaches the session stage (no template has ended
  it, the sender is an owner or a head admin) and the sender has an active session. If the
  sender is an owner, or the chat of the event is the session's source chat, the dispatch
  ends at the session stage: what is sent is the cleanup and the forward (nothing is
  forwarded when no broadcast chat is configured), and no phrase, restore-token or alias
  stage runs. If the sender is not an owner and the chat is another one, the session stage
  is passed over and the dispatch is that of the phrase, restore-token and alias stages.
\<close>

theorem session_short_circuit:
  assumes "effective_user upd = Some u" and "message_text upd \<noteq> []" and "tu_id u \<noteq> 0"
    and "template_stage py d e upd u (str_lower py (py_strip (message_text upd))) = None"
    and "is_owner cfg (tu_id u) \<or> get_role d (tu_id u) = Some head_admin"
    and "get_online_mode d (tu_id u) = Some m"
  shows
    "(is_owner cfg (tu_id u) \<or>
      get_online_mode_source d (tu_id u) = Some (effective_chat_id upd) \<longrightarrow>
        fst (handle_text_commands py cfg e d upd now) = Session \<and>
        fst (snd (handle_text_commands py cfg e d upd now)) =
          cleanup (str_lower py (py_strip (message_text upd))) @
          (case USER_CHAT_ID cfg of
             None \<Rightarrow> []
           | Some dest \<Rightarrow> if dest = 0 then [] else forward_text dest u upd m)) \<and>
     (\<not> is_owner cfg (tu_id u) \<and>
      get_online_mode_source d (tu_id u) \<noteq> Some (effective_chat_id upd) \<longrightarrow>
        handle_text_commands py cfg e d upd now =
          after_session py cfg d upd u (str_lower py (py_strip (message_text upd)))
            (cleanup (str_lower py (py_strip (message_text upd)))) \<and>
        fst (handle_text_commands py cfg e d upd now) \<in> {Phrase, RestoreToken, Alias, NoMatch})"
proof (intro conjI impI)
  assume a: "is_owner cfg (tu_id u) \<or>
      get_online_mode_source d (tu_id u) = Some (effective_chat_id upd)"
  then have s: "session_stage cfg d upd u now =
      (case USER_CHAT_ID cfg of
         None \<Rightarrow> Some ([], d)
       | Some dest \<Rightarrow>
           if dest = 0 then Some ([], d)
           else Some (forward_text dest u upd m, update_online_activity d now (tu_id u)))"
    using assms(6) by (simp add: session_stage_def Let_def)
  have h: "handle_text_commands py cfg e d upd now =
      (case session_stage cfg d upd u now of
         Some (acts, d') \<Rightarrow>
           (Session, cleanup (str_lower py (py_strip (message_text upd))) @ acts, d')
       | None \<Rightarrow> after_session py cfg d upd u (str_lower py (py_strip (message_text upd)))
           (cleanup (str_lower py (py_strip (message_text upd)))))"
    using assms(1-5) by (auto simp add: handle_text_commands_def after_template_def Let_def)
  show "fst (handle_text_commands py cfg e d upd now) = Session"
    by (simp add: h s split: option.splits)
  show "fst (snd (handle_text_commands py cfg e d upd now)) =
          cleanup (str_lower py (py_strip (message_text upd))) @
          (case USER_CHAT_ID cfg of
             None \<Rightarrow> []
           | Some dest \<Rightarrow> if dest = 0 then [] else forward_text dest u upd m)"
    by (simp add: h s split: option.splits)
next
  assume a: "\<not> is_owner cfg (tu_id u) \<and>
      get_online_mode_source d (tu_id u) \<noteq> Some (effective_chat_id upd)"
  then have s: "session_stage cfg d upd u now = None"
    by (simp add: session_stage_other_chat)
  show h: "handle_text_commands py cfg e d upd now =
          after_session py cfg d upd u (str_lower py (py_strip (message_text upd)))
            (cleanup (str_lower py (py_strip (message_text upd))))"
    using assms(1-5) s by (rule handle_text_commands_after_session)
  show "fst (handle_text_commands py cfg e d upd now) \<in> {Phrase, RestoreToken, Alias, NoMatch}"
    unfolding h by (rule after_session_stage)
qed

lemma adminy_hyps:
  "effective_user (msg bob c adminy) = Some bob \<and>
   message_text (msg bob c adminy) = adminy \<and> adminy \<noteq> [] \<and>
   py_lower (py_strip adminy) = adminy \<and> tu_id bob \<noteq> 0 \<and>
   template_stage py0 bob_signed_db env0 (msg bob c adminy) bob adminy = None \<and>
   get_role bob_signed_db (tu_id bob) = Some head_admin \<and>
   get_online_mode bob_signed_db (tu_id bob) = Some sayon \<and>
   get_online_mode_source bob_signed_db (tu_id bob) = Some 600 \<and>
   \<not> is_owner cfg0 (tu_id bob) \<and>
   effective_chat_id (msg bob c adminy) = c \<and>
   cleanup adminy = [] \<and>
   phrase_stage cfg0 adminy = Some [Invoke (U ''admin_list'') []]"
  apply (intro conjI)
  apply (simp_all add: bob_signed_db_eq scenario_defs lookup_defs template_stage_def
      select_template_def sort_commands_def cleanup_def)
  apply (simp_all add: adminy_def phrase_stage_def phrases_giveperm_def
      phrases_giveperm_simple_def phrases_removeperm_def phrases_admin_list_def str_defs)
  done

theorem session_short_circuit_witness:
  "get_online_mode bob_signed_db 7 = Some sayon \<and>
   get_online_mode_source bob_signed_db 7 = Some 600 \<and>
   fst (handle_text_commands py0 cfg0 env0 bob_signed_db (msg bob 600 adminy) 2) = Session \<and>
   fst (snd (handle_text_commands py0 cfg0 env0 bob_signed_db (msg bob 600 adminy) 2)) =
     forward_text 777 bob (msg bob 600 adminy) sayon \<and>
   handle_text_commands py0 cfg0 env0 bob_signed_db (msg bob 700 adminy) 2 =
     after_session py0 cfg0 bob_signed_db (msg bob 700 adminy) bob adminy []"
proof -
  have b: "tu_id bob = 7" by (simp add: bob_def)
  have 1: "fst (handle_text_commands py0 cfg0 env0 bob_signed_db (msg bob 600 adminy) 2) = Session \<and>
     fst (snd (handle_text_commands py0 cfg0 env0 bob_signed_db (msg bob 600 adminy) 2)) =
       forward_text 777 bob (msg bob 600 adminy) sayon"
    using adminy_hyps [of 600]
      session_short_circuit [where upd = "msg bob 600 adminy" and u = bob
        and d = bob_signed_db and e = env0 and cfg = cfg0 and py = py0 and m = sayon and now = 2]
    by (simp add: cfg0_def)
  have 2: "handle_text_commands py0 cfg0 env0 bob_signed_db (msg bob 700 adminy) 2 =
     after_session py0 cfg0 bob_signed_db (msg bob 700 adminy) bob adminy []"
    using adminy_hyps [of 700]
      session_short_circuit [where upd = "msg bob 700 adminy" and u = bob
        and d = bob_signed_db and e = env0 and cfg = cfg0 and py = py0 and m = sayon and now = 2]
    by simp
  have 3: "get_online_mode bob_signed_db 7 = Some sayon \<and>
     get_online_mode_source bob_signed_db 7 = Some 600"
    using adminy_hyps [of 700] b by simp
  from 1 2 3 show ?thesis by blast
qed

lemma adminy_other_chat_dispatch:
  "handle_text_commands py0 cfg0 env0 bob_signed_db (msg bob 700 adminy) 2 =
     (Phrase, [Invoke (U ''admin_list'') []], bob_signed_db)"
proof -
  have s: "session_stage cfg0 bob_signed_db (msg bob 700 adminy) bob 2 = None"
    using adminy_hyps [of 700] by (simp add: session_stage_other_chat)
  have "handle_text_commands py0 cfg0 env0 bob_signed_db (msg bob 700 adminy) 2 =
     after_session py0 cfg0 bob_signed_db (msg bob 700 adminy) bob adminy []"
    using adminy_hyps [of 700] s
      handle_text_commands_after_session [where upd = "msg bob 700 adminy" and u = bob
        and d = bob_signed_db and e = env0 and cfg = cfg0 and py = py0 and now = 2]
    by simp
  then show ?thesis
    using adminy_hyps [of 700] by (simp add: after_session_def)
qed

text \<open>
  C2 as stated fails: Bob, head admin with a signed session opened in chat 600, writes
  "adminy" in chat 700, and the phrase stage runs.
\<close>

theorem session_short_circuit_counterexample:
  "get_online_mode bob_signed_db 7 = Some sayon \<and>
   handle_text_commands py0 cfg0 env0 bob_signed_db (msg bob 700 adminy) 2 =
     (Phrase, [Invoke (U ''admin_list'') []], bob_signed_db)"
  using adminy_hyps [of 700] adminy_other_chat_dispatch by (simp add: bob_def)


text \<open>
  C3, as the code has it. When the dispatch reaches alias resolution, only the first
  whitespace-delimited word of the lowercased text is looked up among the aliases of the
  chat; no longer run of words is tried. Without an alias for that word nothing is
  dispatched; with one, the canonical command (leading slashes dropped, lowercased) is
  invoked, if it is a registered handler, with all the words after the first as arguments.
\<close>

theorem alias_resolution_first_word:
  assumes "effective_user upd = Some u" and "message_text upd \<noteq> []" and "tu_id u \<noteq> 0"
    and "template_stage py d e upd u (str_lower py (py_strip (message_text upd))) = None"
    and "is_owner cfg (tu_id u) \<or> get_role d (tu_id u) = Some head_admin"
    and "session_stage cfg d upd u now = None"
    and "phrase_stage cfg (str_lower py (py_strip (message_text upd))) = None"
    and "restore_stage py cfg (tu_id u) (str_lower py (py_strip (message_text upd))) = None"
    and "py_split (str_lower py (py_strip (message_text upd))) = w # ws"
  shows
    "(get_command_alias py d (effective_chat_id upd) w = None \<longrightarrow>
        handle_text_commands py cfg e d upd now =
          (NoMatch, cleanup (str_lower py (py_strip (message_text upd))), d)) \<and>
     (\<forall>target. get_command_alias py d (effective_chat_id upd) w = Some target \<and> target \<noteq> [] \<longrightarrow>
        handle_text_commands py cfg e d upd now =
          (Alias,
           cleanup (str_lower py (py_strip (message_text upd))) @
           (if str_lower py (dropWhile (\<lambda>x. x = 47) target) \<in> set (COMMAND_HANDLERS cfg)
            then [Invoke (str_lower py (dropWhile (\<lambda>x. x = 47) target)) ws] else []),
           d))"
  using assms(7-9)
  by (simp add: handle_text_commands_after_session [OF assms(1-6)] after_session_def
      alias_stage_def first_word_def Let_def)

theorem alias_resolution_first_word_witness:
  "py_split ban_tykho_12345 = [ban_word, tykho, U ''12345''] \<and>
   get_command_alias py0 alias_db 100 ban_word = Some (U ''ban'') \<and>
   handle_text_commands py0 cfg0 env0 alias_db (msg bob 100 ban_tykho_12345) 3 =
     (Alias, [Invoke (U ''ban'') [tykho, U ''12345'']], alias_db)"
proof -
  have "handle_text_commands py0 cfg0 env0 alias_db (msg bob 100 ban_tykho_12345) 3 =
     (Alias,
      cleanup ban_tykho_12345 @
      (if str_lower py0 (dropWhile (\<lambda>x. x = 47) (U ''ban'')) \<in> set (COMMAND_HANDLERS cfg0)
       then [Invoke (str_lower py0 (dropWhile (\<lambda>x. x = 47) (U ''ban''))) [tykho, U ''12345'']]
       else []),
      alias_db)"
    using ban_tykho_hyps ban_tykho_split
      alias_resolution_first_word [where upd = "msg bob 100 ban_tykho_12345" and u = bob
        and d = alias_db and e = env0 and cfg = cfg0 and py = py0 and now = 3 and w = ban_word
        and ws = "[tykho, U ''12345'']"]
    by (simp add: U_def)
  then show ?thesis
    using ban_tykho_hyps ban_tykho_split by (simp add: cfg0_def str_defs)
qed

lemma ban_tykho_dispatch:
  "handle_text_commands py0 cfg0 env0 alias_db (msg bob 100 ban_tykho_12345) 3 =
     (Alias, [Invoke (U ''ban'') [tykho, U ''12345'']], alias_db)"
proof -
  have "handle_text_commands py0 cfg0 env0 alias_db (msg bob 100 ban_tykho_12345) 3 =
     after_session py0 cfg0 alias_db (msg bob 100 ban_tykho_12345) bob ban_tykho_12345 []"
    using ban_tykho_hyps ban_tykho_split
      handle_text_commands_after_session [where upd = "msg bob 100 ban_tykho_12345"
        and u = bob and d = alias_db and e = env0 and cfg = cfg0 and py = py0 and now = 3]
    by simp
  then show ?thesis
    using ban_tykho_hyps ban_tykho_split
    by (simp add: after_session_def alias_stage_def first_word_def cfg0_def Let_def str_defs)
qed

text \<open>
  C3 as stated fails on its own example: with both aliases registered, "ban tykho 12345"
  invokes \<open>ban\<close> with the arguments "tykho" and "12345", not \<open>ban_silent\<close> with "12345".
\<close>

theorem alias_longest_run_counterexample:
  "get_command_alias py0 alias_db 100 ban_word = Some (U ''ban'') \<and>
   get_command_alias py0 alias_db 100 (ban_word @ [32] @ tykho) = Some (U ''ban_silent'') \<and>
   fst (snd (handle_text_commands py0 cfg0 env0 alias_db (msg bob 100 ban_tykho_12345) 3)) =
     [Invoke (U ''ban'') [tykho, U ''12345'']] \<and>
   fst (snd (handle_text_commands py0 cfg0 env0 alias_db (msg bob 100 ban_tykho_12345) 3)) \<noteq>
     [Invoke (U ''ban_silent'') [U ''12345'']]"
  using ban_tykho_hyps by (simp add: ban_tykho_dispatch U_def)

subsection \<open>A template without a second participant\<close>

lemma unresolved_no_target:
  assumes "reply_to_user upd = None"
    and "\<forall>h. find_username extra = Some h \<longrightarrow>
           get_user_by_username d h = None \<and> get_chat e (64 # h) = None"
  shows "\<not> has_target (resolve_target d e upd extra)"
  using assms
  by (auto simp add: resolve_target_def resolve_by_reply_def resolve_by_username_def
      has_target_def no_target_def Let_def split: option.splits)

text \<open>
  C1, as the code has it. The text matches a template of its chat, there is no reply
  target, and the handle in the remainder (if any) is found neither in the user directory
  nor at Telegram. Then the template stage sends nothing and does not end the dispatch:
  the handler goes on with the capability gate and the stages behind it, as after a text
  that matches no template. For a sender who is neither owner nor head admin the dispatch
  ends at the gate and nothing is sent beyond the cleanup.
\<close>

theorem unresolved_template_falls_through:
  assumes "effective_user upd = Some u" and "message_text upd \<noteq> []" and "tu_id u \<noteq> 0"
    and "select_template py (get_all_personal_commands d (effective_chat_id upd))
           (str_lower py (py_strip (message_text upd))) = Some c"
    and "reply_to_user upd = None"
    and "\<forall>h. find_username
               (py_strip (drop (length (name c)) (str_lower py (py_strip (message_text upd))))) =
             Some h \<longrightarrow>
           get_user_by_username d h = None \<and> get_chat e (64 # h) = None"
  shows
    "template_stage py d e upd u (str_lower py (py_strip (message_text upd))) = None \<and>
     handle_text_commands py cfg e d upd now =
       after_template py cfg d upd u (str_lower py (py_strip (message_text upd)))
         (cleanup (str_lower py (py_strip (message_text upd)))) now \<and>
     (\<not> (is_owner cfg (tu_id u) \<or> get_role d (tu_id u) = Some head_admin) \<longrightarrow>
        handle_text_commands py cfg e d upd now =
          (CapabilityGate, cleanup (str_lower py (py_strip (message_text upd))), d))"
proof -
  let ?text = "str_lower py (py_strip (message_text upd))"
  have n: "\<not> has_target (resolve_target d e upd (py_strip (drop (length (name c)) ?text)))"
    using assms(5) assms(6) by (rule unresolved_no_target)
  have t: "template_stage py d e upd u ?text = None"
    using assms(4) n by (simp add: template_stage_def Let_def split: option.splits)
  have h: "handle_text_commands py cfg e d upd now =
       after_template py cfg d upd u ?text (cleanup ?text) now"
    using assms(1-3) t by (simp add: handle_text_commands_def Let_def)
  show ?thesis
    using t h by (simp add: after_template_def Let_def)
qed

lemma hug_ghost_text:
  "py_lower (py_strip (U ''hug @ghostuser'')) = U ''hug @ghostuser''"
  by (simp add: str_defs)

lemma hug_ghost_selected:
  "select_template py0 (get_all_personal_commands hug_session_db 100) (U ''hug @ghostuser'') =
     Some \<lparr>name = U ''hug'', template = U ''@s1 hugs @s2 @t'', cmd_id = 1\<rparr>"
  by (simp add: select_template_def get_all_personal_commands_def hug_session_db_def
      hug_db_def empty_db_def row_cmd_def sort_commands_def word_count_def cmd_matches_def
      str_defs)

lemma hug_ghost_unresolved:
  "py_strip (drop (length (U ''hug'')) (U ''hug @ghostuser'')) = U ''@ghostuser'' \<and>
   find_username (U ''@ghostuser'') = Some (U ''ghostuser'') \<and>
   get_user_by_username hug_session_db (U ''ghostuser'') = None \<and>
   get_chat env0 (64 # U ''ghostuser'') = None"
  by (simp add: get_user_by_username_def hug_session_db_def hug_db_def empty_db_def env0_def
      is_word_cp_def str_defs)

lemma hug_ghost_hyps:
  "effective_user (msg u 100 (U ''hug @ghostuser'')) = Some u \<and>
   message_text (msg u 100 (U ''hug @ghostuser'')) = U ''hug @ghostuser'' \<and>
   U ''hug @ghostuser'' \<noteq> [] \<and>
   effective_chat_id (msg u 100 (U ''hug @ghostuser'')) = 100 \<and>
   reply_to_user (msg u 100 (U ''hug @ghostuser'')) = None \<and>
   cleanup (U ''hug @ghostuser'') = []"
  by (simp add: msg_def cleanup_def str_defs)

theorem unresolved_template_falls_through_witness:
  "select_template py0 (get_all_personal_commands hug_session_db 100) (U ''hug @ghostuser'') =
     Some \<lparr>name = U ''hug'', template = U ''@s1 hugs @s2 @t'', cmd_id = 1\<rparr> \<and>
   find_username (U ''@ghostuser'') = Some (U ''ghostuser'') \<and>
   get_user_by_username hug_session_db (U ''ghostuser'') = None \<and>
   get_chat env0 (64 # U ''ghostuser'') = None \<and>
   template_stage py0 hug_session_db env0 (msg carol 100 (U ''hug @ghostuser'')) carol
     (U ''hug @ghostuser'') = None \<and>
   handle_text_commands py0 cfg0 env0 hug_session_db (msg carol 100 (U ''hug @ghostuser'')) 2 =
     (CapabilityGate, [], hug_session_db)"
proof -
  let ?upd = "msg carol 100 (U ''hug @ghostuser'')"
  let ?c = "\<lparr>name = U ''hug'', template = U ''@s1 hugs @s2 @t'', cmd_id = 1\<rparr>"
  have t: "str_lower py0 (py_strip (message_text ?upd)) = U ''hug @ghostuser''"
    using hug_ghost_hyps [of carol] hug_ghost_text by simp
  have h1: "effective_user ?upd = Some carol" and h2: "message_text ?upd \<noteq> []"
    and h5: "reply_to_user ?upd = None"
    using hug_ghost_hyps [of carol] by simp_all
  have h3: "tu_id carol \<noteq> 0" by (simp add: carol_def)
  have h4: "select_template py0 (get_all_personal_commands hug_session_db (effective_chat_id ?upd))
      (str_lower py0 (py_strip (message_text ?upd))) = Some ?c"
    using hug_ghost_hyps [of carol] hug_ghost_selected by (simp add: hug_ghost_text)
  have h6: "\<forall>h. find_username
         (py_strip (drop (length (name ?c)) (str_lower py0 (py_strip (message_text ?upd))))) =
       Some h \<longrightarrow>
       get_user_by_username hug_session_db h = None \<and> get_chat env0 (64 # h) = None"
    using hug_ghost_hyps [of carol] hug_ghost_unresolved by (simp add: hug_ghost_text)
  have g: "\<not> (is_owner cfg0 (tu_id carol) \<or> get_role hug_session_db (tu_id carol) = Some head_admin)"
    by (simp add: carol_def is_owner_def cfg0_def get_role_def hug_session_db_def)
  have k: "cleanup (U ''hug @ghostuser'') = []"
    using hug_ghost_hyps [of carol] by simp
  from unresolved_template_falls_through [OF h1 h2 h3 h4 h5 h6, of cfg0 2] g
  have "template_stage py0 hug_session_db env0 ?upd carol (U ''hug @ghostuser'') = None \<and>
     handle_text_commands py0 cfg0 env0 hug_session_db ?upd 2 =
       (CapabilityGate, [], hug_session_db)"
    unfolding t k by blast
  then show ?thesis
    using hug_ghost_selected hug_ghost_unresolved by simp
qed

lemma hug_ghost_bob_dispatch:
  "handle_text_commands py0 cfg0 env0 hug_session_db (msg bob 100 (U ''hug @ghostuser'')) 2 =
     (Session,
      [SendMessage 777 (U ''hug ghostuser'' @ [10, 10, 8212, 32] @ U ''Bob @bobby'')],
      update_online_activity hug_session_db 2 7)"
proof -
  have n: "\<not> has_target (resolve_target hug_session_db env0
       (msg bob 100 (U ''hug @ghostuser'')) (U ''@ghostuser''))"
    using hug_ghost_hyps [of bob] hug_ghost_unresolved
    by (intro unresolved_no_target) auto
  have t: "template_stage py0 hug_session_db env0 (msg bob 100 (U ''hug @ghostuser'')) bob
       (U ''hug @ghostuser'') = None"
    using n hug_ghost_selected hug_ghost_unresolved hug_ghost_hyps [of bob]
    by (simp add: template_stage_def Let_def split: option.splits)
  have b: "tu_id bob = 7" "get_role hug_session_db 7 = Some head_admin"
    "get_online_mode hug_session_db 7 = Some sayon"
    "get_online_mode_source hug_session_db 7 = Some 100"
    "USER_CHAT_ID cfg0 = Some 777"
    by (simp_all add: bob_def get_role_def get_online_mode_def get_online_mode_source_def
        hug_session_db_def cfg0_def)
  have "handle_text_commands py0 cfg0 env0 hug_session_db (msg bob 100 (U ''hug @ghostuser'')) 2 =
     (Session, cleanup (U ''hug @ghostuser'') @
        forward_text 777 bob (msg bob 100 (U ''hug @ghostuser'')) sayon,
      update_online_activity hug_session_db 2 (tu_id bob))"
    using handle_text_commands_session [where upd = "msg bob 100 (U ''hug @ghostuser'')"
        and u = bob and d = hug_session_db and e = env0 and cfg = cfg0 and py = py0 and now = 2
        and m = sayon and dest = 777]
      hug_ghost_hyps [of bob] hug_ghost_text t b
    by simp
  then show ?thesis
    using hug_ghost_hyps [of bob] b
    by (simp add: forward_text_def signature_def safe_send_message_def msg_def bob_def
        Let_def str_defs)
qed

text \<open>
  C1 as stated fails: Bob, head admin with a signed session opened in chat 100, writes
  "hug @ghostuser" there. The template "hug" matches, nobody is resolved, and the
  dispatch goes on to the session stage, which forwards the message to the broadcast chat.
\<close>

theorem unresolved_template_silent_counterexample:
  "select_template py0 (get_all_personal_commands hug_session_db 100) (U ''hug @ghostuser'') =
     Some \<lparr>name = U ''hug'', template = U ''@s1 hugs @s2 @t'', cmd_id = 1\<rparr> \<and>
   find_username (U ''@ghostuser'') = Some (U ''ghostuser'') \<and>
   get_user_by_username hug_session_db (U ''ghostuser'') = None \<and>
   get_chat env0 (64 # U ''ghostuser'') = None \<and>
   reply_to_user (msg bob 100 (U ''hug @ghostuser'')) = None \<and>
   handle_text_commands py0 cfg0 env0 hug_session_db (msg bob 100 (U ''hug @ghostuser'')) 2 =
     (Session,
      [SendMessage 777 (U ''hug ghostuser'' @ [10, 10, 8212, 32] @ U ''Bob @bobby'')],
      update_online_activity hug_session_db 2 7)"
  using hug_ghost_selected hug_ghost_unresolved hug_ghost_hyps [of bob] hug_ghost_bob_dispatch
  by simp

subsection \<open>Toggling a mode twice\<close>

lemma no_command_forward: "is_forward a \<Longrightarrow> \<not> runs_command a"
  by (cases a) simp_all

lemma no_command_cleanup: "\<not> list_ex runs_command (cleanup txt)"
  by (simp add: cleanup_def)

lemma no_command_forward_text: "\<not> list_ex runs_command (forward_text dest u upd m)"
  by (cases m) (simp_all add: forward_text_def)

text \<open>A message that ends at the session stage is delivered: a forward runs no command.\<close>

lemma session_stage_acts:
  "session_stage cfg d upd u now = Some (acts, d') \<Longrightarrow> \<not> list_ex runs_command acts"
  using no_command_forward_text
  by (auto simp add: session_stage_def Let_def split: option.splits if_splits)

lemma deliver_session:
  assumes "fst (handle_text_commands py cfg e d upd now) = Session"
  shows "deliver py cfg d (TextCommands e upd now) =
     Some (snd (snd (handle_text_commands py cfg e d upd now)))"
proof -
  let ?txt = "str_lower py (py_strip (message_text upd))"
  from assms obtain u where u: "effective_user upd = Some u"
    by (cases "effective_user upd") (auto simp add: handle_text_commands_def split: if_splits)
  from assms u have g: "message_text upd \<noteq> []" "tu_id u \<noteq> 0"
    by (auto simp add: handle_text_commands_def split: if_splits)
  from assms u g have t: "template_stage py d e upd u ?txt = None"
    by (cases "template_stage py d e upd u ?txt") (auto simp add: handle_text_commands_def Let_def)
  have h: "handle_text_commands py cfg e d upd now =
      after_template py cfg d upd u ?txt (cleanup ?txt) now"
    using u g t by (simp add: handle_text_commands_def Let_def)
  have "\<not> list_ex runs_command (fst (snd (after_template py cfg d upd u ?txt (cleanup ?txt) now)))"
  proof (cases "session_stage cfg d upd u now")
    case None
    then have "fst (after_template py cfg d upd u ?txt (cleanup ?txt) now) \<noteq> Session"
      using after_session_stage [of py cfg d upd u ?txt "cleanup ?txt"]
      by (auto simp add: after_template_def Let_def)
    with assms h show ?thesis by simp
  next
    case (Some p)
    obtain acts d' where p: "p = (acts, d')" by (cases p)
    have "\<not> list_ex runs_command acts"
      using Some p session_stage_acts by blast
    then show ?thesis
      using Some p no_command_cleanup [of ?txt]
      by (auto simp add: after_template_def Let_def)
  qed
  then show ?thesis by (simp add: h)
qed

lemma deliver_forwards:
  assumes "list_all is_forward (fst (handle_all_messages cfg d upd now))"
  shows "deliver py cfg d (AllMessages upd now) = Some (snd (handle_all_messages cfg d upd now))"
  using assms no_command_forward by (auto simp add: list_all_iff list_ex_iff)

text \<open>
  C7. A principal with no session invokes the toggle of a mode; then inbound messages
  are handled, none of which runs a command (forwards are such messages, whatever their
  number); then the same principal invokes the same toggle again: the principal has no
  session afterwards. Where the principal may use the toggle (a role that can use the
  bot, not blocked), the first invocation creates the session in that mode, it is still
  there after the messages, and the second invocation removes it.
\<close>

theorem toggle_twice_inactive:
  assumes u1: "effective_user upd1 = Some usr1"
    and u2: "effective_user upd2 = Some usr2"
    and same: "tu_id usr2 = tu_id usr1"
    and inactive: "get_online_mode d (tu_id usr1) = None"
    and between: "deliver_all py cfg (toggle m cfg d upd1 t1) msgs = Some d2"
  shows "get_online_mode (toggle m cfg d2 upd2 t2) (tu_id usr1) = None \<and>
         (can_use_bot cfg d (tu_id usr1) \<and> \<not> is_say_blocked d (tu_id usr1) \<longrightarrow>
            get_online_mode (toggle m cfg d upd1 t1) (tu_id usr1) = Some m \<and>
            get_online_mode d2 (tu_id usr1) = Some m)"
proof -
  let ?u = "tu_id usr1"
  let ?d1 = "toggle m cfg d upd1 t1"
  let ?d3 = "toggle m cfg d2 upd2 t2"
  have s0: "same_sessions d (save_user_from_update d upd1)"
    by (rule same_sessions_save_user)
  have s12: "same_sessions ?d1 d2"
    using between by (rule same_sessions_deliver_all)
  have s2: "same_sessions d2 (save_user_from_update d2 upd2)"
    by (rule same_sessions_save_user)
  show ?thesis
  proof (cases "permitted cfg d ?u")
    case True
    then have d1: "?d1 = set_online_mode (save_user_from_update d upd1) t1 ?u m (Some (effective_chat_id upd1))"
      using inactive by (simp add: toggle_eq [OF u1] Let_def)
    have m1: "get_online_mode ?d1 ?u = Some m"
      by (simp add: d1 get_online_mode_set)
    have p1: "permitted cfg ?d1 ?u"
      using True s0
      by (simp add: d1 permitted_def permitted_set_online_mode same_sessions_can_use_bot
          same_sessions_blocked)
    have m2: "get_online_mode d2 ?u = Some m"
      using m1 same_sessions_mode [OF s12] by simp
    have p2: "permitted cfg d2 ?u"
      using p1 s12 by (simp add: permitted_def same_sessions_can_use_bot same_sessions_blocked)
    have "?d3 = remove_online_mode (save_user_from_update d2 upd2) ?u"
      using m2 p2 same by (simp add: toggle_eq [OF u2] Let_def)
    then have "get_online_mode ?d3 ?u = None"
      by (simp add: get_online_mode_remove)
    with m1 m2 show ?thesis by simp
  next
    case False
    then have d1: "?d1 = save_user_from_update d upd1"
      by (simp add: toggle_eq [OF u1] Let_def)
    have m1: "get_online_mode ?d1 ?u = None"
      using inactive same_sessions_mode [OF s0] by (simp add: d1)
    have p1: "\<not> permitted cfg ?d1 ?u"
      using False s0
      by (simp add: d1 permitted_def same_sessions_can_use_bot same_sessions_blocked)
    have m2: "get_online_mode d2 ?u = None"
      using m1 same_sessions_mode [OF s12] by simp
    have p2: "\<not> permitted cfg d2 ?u"
      using p1 s12 by (simp add: permitted_def same_sessions_can_use_bot same_sessions_blocked)
    have "?d3 = save_user_from_update d2 upd2"
      using p2 same by (simp add: toggle_eq [OF u2] Let_def)
    then have "get_online_mode ?d3 ?u = None"
      using m2 same_sessions_mode [OF s2] by simp
    with False show ?thesis by (auto simp add: permitted_def)
  qed
qed

lemma toggle_twice_facts:
  shows "effective_user (msg alice 500 (U ''/sayon'')) = Some alice"
    and "get_online_mode staff_db (tu_id alice) = None"
    and "can_use_bot cfg0 staff_db (tu_id alice)"
    and "\<not> is_say_blocked staff_db (tu_id alice)"
  by (simp_all add: msg_def alice_def get_online_mode_def staff_db_def empty_db_def
      can_use_bot_def is_owner_def cfg0_def is_say_blocked_def)

lemma alice_hello_delivered:
  "deliver_all py0 cfg0 alice_signed_db [TextCommands env0 (msg alice 500 (U ''hello'')) 2] =
     Some (update_online_activity alice_signed_db 2 9)"
  using deliver_session [where py = py0 and cfg = cfg0 and e = env0 and d = alice_signed_db
      and upd = "msg alice 500 (U ''hello'')" and now = 2]
  by (simp add: alice_hello_dispatch)

theorem toggle_twice_inactive_witness:
  "get_online_mode staff_db 9 = None \<and>
   get_online_mode (toggle sayon cfg0 staff_db (msg alice 500 (U ''/sayon'')) 1) 9 = Some sayon \<and>
   deliver_all py0 cfg0 (toggle sayon cfg0 staff_db (msg alice 500 (U ''/sayon'')) 1)
     [TextCommands env0 (msg alice 500 (U ''hello'')) 2] =
     Some (update_online_activity alice_signed_db 2 9) \<and>
   get_online_mode (update_online_activity alice_signed_db 2 9) 9 = Some sayon \<and>
   get_online_mode
     (toggle sayon cfg0 (update_online_activity alice_signed_db 2 9)
        (msg alice 500 (U ''/sayon'')) 3) 9 = None"
proof -
  note f = toggle_twice_facts
  have b: "deliver_all py0 cfg0 (toggle sayon cfg0 staff_db (msg alice 500 (U ''/sayon'')) 1)
      [TextCommands env0 (msg alice 500 (U ''hello'')) 2] =
      Some (update_online_activity alice_signed_db 2 9)"
    using alice_hello_delivered by (simp add: alice_signed_db_def)
  have i: "tu_id alice = tu_id alice" by simp
  from toggle_twice_inactive [OF f(1) f(1) i f(2) b, where ?t2.0 = 3] f(3) f(4)
  have "get_online_mode
      (toggle sayon cfg0 (update_online_activity alice_signed_db 2 9)
         (msg alice 500 (U ''/sayon'')) 3) (tu_id alice) = None \<and>
    get_online_mode (toggle sayon cfg0 staff_db (msg alice 500 (U ''/sayon'')) 1) (tu_id alice) =
      Some sayon \<and>
    get_online_mode (update_online_activity alice_signed_db 2 9) (tu_id alice) = Some sayon"
    by blast
  then show ?thesis
    using f(2) b unfolding alice_hello_values(1) by blast
qed



subsection \<open>Lowercasing in the template stage\<close>

lemma lower_cp_idem: "lower_cp (lower_cp c) = lower_cp c"
  by (simp add: lower_cp_def)

lemma is_space_lower_cp: "is_space (lower_cp c) = is_space c"
  by (simp add: lower_cp_def is_space_def)

lemma py_lower_idem: "py_lower (py_lower s) = py_lower s"
  by (simp add: py_lower_def lower_cp_idem)

lemma dropWhile_space_lower:
  "dropWhile is_space (map lower_cp s) = map lower_cp (dropWhile is_space s)"
  by (induction s) (simp_all add: is_space_lower_cp)

lemma py_strip_lower: "py_strip (py_lower s) = py_lower (py_strip s)"
  by (simp add: py_strip_def py_lstrip_def py_rstrip_def py_lower_def dropWhile_space_lower
      rev_map)

lemma py_lower_empty: "py_lower s = [] \<longleftrightarrow> s = []"
  by (simp add: py_lower_def)

lemma normalise_lower:
  "lowercasing lower \<Longrightarrow> lower (py_strip (lower s)) = lower (py_strip s)"
  by (simp add: lowercasing_def)

text \<open>A string that \<open>py_lower\<close> leaves as it is.\<close>

lemma lowered_iff: "py_lower s = s \<longleftrightarrow> (\<forall>c \<in> set s. lower_cp c = c)"
  by (simp add: py_lower_def map_idI) (metis map_eq_conv map_ident)

lemma lowered_subset: "py_lower s = s \<Longrightarrow> set t \<subseteq> set s \<Longrightarrow> py_lower t = t"
  by (auto simp add: lowered_iff)

lemma lowercasing_py_lower: "lowercasing py_lower"
  unfolding lowercasing_def
  using py_lower_idem py_strip_lower py_lower_empty lowered_subset by blast

lemma set_py_strip: "set (py_strip s) \<subseteq> set s"
proof -
  have "set (py_rstrip s) \<subseteq> set s" for s
    using set_dropWhileD [of _ is_space "rev s"] by (auto simp add: py_rstrip_def)
  moreover have "set (py_lstrip s) \<subseteq> set s"
    using set_dropWhileD [of _ is_space s] by (auto simp add: py_lstrip_def)
  ultimately show ?thesis
    unfolding py_strip_def by blast
qed

lemma set_repl_skip_delete: "set (repl_skip old [] k s) \<subseteq> set s"
  by (induction old "[] :: ustr" k s rule: repl_skip.induct) auto

lemma set_py_replace_delete: "old \<noteq> [] \<Longrightarrow> set (py_replace s old []) \<subseteq> set s"
  by (simp add: py_replace_def set_repl_skip_delete)

lemma set_extra_text_for_output:
  "set (extra_text_for_output (resolve_target d e upd extra)) \<subseteq> set extra"
proof -
  have "set (py_strip (py_replace extra (64 # h) [])) \<subseteq> set extra" for h
    using set_py_strip [of "py_replace extra (64 # h) []"] set_py_replace_delete [of "64 # h" extra]
    by auto
  then show ?thesis
    by (auto simp add: resolve_target_def resolve_by_reply_def resolve_by_username_def
        resolved_def Let_def split: option.splits)
qed

lemma resolve_target_message_text:
  "resolve_target d e (upd\<lparr>message_text := t\<rparr>) extra = resolve_target d e upd extra"
  by (simp add: resolve_target_def resolve_by_reply_def)

lemma template_stage_message_text:
  "template_stage py d e (upd\<lparr>message_text := t\<rparr>) u txt = template_stage py d e upd u txt"
  by (simp add: template_stage_def resolve_target_message_text Let_def split: option.splits)

text \<open>
  C10. Template dispatch reads the event text only through
  \<open>text = update.message.text.strip().lower()\<close> (line 5693), with \<open>str.lower()\<close> taken
  as given: any function with the four properties of \<open>lowercasing\<close>. For every text
  event, the template stage on the lowercased event is the template stage on the event
  as typed: the same template is selected, the same target resolved and the same
  messages sent. Hence a dispatch that ends in the template stage is the same dispatch,
  outcome for outcome, when the text arrives already lowercased. The remainder
  substituted for \<open>@t\<close> is a piece of the lowercased text, so it is in lowercase form:
  lowering it changes nothing.
\<close>

theorem template_dispatch_lowercase:
  assumes low: "lowercasing (str_lower py)"
  shows
  "template_stage py d e (upd\<lparr>message_text := str_lower py (message_text upd)\<rparr>) u
     (str_lower py (py_strip (str_lower py (message_text upd)))) =
   template_stage py d e upd u (str_lower py (py_strip (message_text upd))) \<and>
   (fst (handle_text_commands py cfg e d upd now) = Template \<longrightarrow>
      handle_text_commands py cfg e d (upd\<lparr>message_text := str_lower py (message_text upd)\<rparr>) now =
      handle_text_commands py cfg e d upd now) \<and>
   (\<forall>c. select_template py (get_all_personal_commands d (effective_chat_id upd))
          (str_lower py (py_strip (message_text upd))) = Some c \<longrightarrow>
        str_lower py (extra_text_for_output (resolve_target d e upd
          (py_strip (drop (length (name c)) (str_lower py (py_strip (message_text upd))))))) =
        extra_text_for_output (resolve_target d e upd
          (py_strip (drop (length (name c)) (str_lower py (py_strip (message_text upd)))))))"
proof (intro conjI impI allI)
  let ?text = "str_lower py (py_strip (message_text upd))"
  let ?upd' = "upd\<lparr>message_text := str_lower py (message_text upd)\<rparr>"
  have n: "str_lower py (py_strip (str_lower py (message_text upd))) = ?text"
    using low by (rule normalise_lower)
  have em: "str_lower py (message_text upd) = [] \<longleftrightarrow> message_text upd = []"
    using low by (simp add: lowercasing_def)
  show t: "template_stage py d e ?upd' u (str_lower py (py_strip (str_lower py (message_text upd)))) =
      template_stage py d e upd u ?text"
    by (simp add: n template_stage_message_text)
  {
    assume a: "fst (handle_text_commands py cfg e d upd now) = Template"
    have ne: "message_text upd \<noteq> []"
      using a by (auto simp add: handle_text_commands_def)
    obtain usr where usr: "effective_user upd = Some usr"
      using a ne by (cases "effective_user upd") (auto simp add: handle_text_commands_def)
    have id: "tu_id usr \<noteq> 0"
      using a ne usr by (auto simp add: handle_text_commands_def)
    obtain acts where acts: "template_stage py d e upd usr ?text = Some acts"
    proof (cases "template_stage py d e upd usr ?text")
      case None
      then have "handle_text_commands py cfg e d upd now =
          after_template py cfg d upd usr ?text (cleanup ?text) now"
        using ne usr id by (simp add: handle_text_commands_def Let_def)
      moreover have "fst (after_template py cfg d upd usr ?text (cleanup ?text) now) \<noteq> Template"
        using after_session_stage [of py cfg d upd usr ?text "cleanup ?text"]
        by (auto simp add: after_template_def Let_def split: option.splits)
      ultimately show ?thesis using a by simp
    next
      case (Some acts)
      then show ?thesis by (rule that)
    qed
    have "template_stage py d e ?upd' usr (str_lower py (py_strip (str_lower py (message_text upd)))) =
        Some acts"
      using acts by (simp add: n template_stage_message_text)
    then show "handle_text_commands py cfg e d ?upd' now = handle_text_commands py cfg e d upd now"
      using ne usr id acts em
      by (simp add: handle_text_commands_def Let_def n)
  }
  fix c
  let ?extra = "py_strip (drop (length (name c)) ?text)"
  have "str_lower py ?text = ?text"
    using low by (simp add: lowercasing_def)
  moreover have "set (extra_text_for_output (resolve_target d e upd ?extra)) \<subseteq> set ?text"
    using set_extra_text_for_output [of d e upd ?extra] set_py_strip [of "drop (length (name c)) ?text"]
      set_drop_subset [of "length (name c)" ?text]
    by blast
  ultimately show "str_lower py (extra_text_for_output (resolve_target d e upd ?extra)) =
      extra_text_for_output (resolve_target d e upd ?extra)"
    using low unfolding lowercasing_def by blast
qed

lemma hug_typed_text:
  "py_lower (py_strip hug_typed) = U ''hug @bobby_b well done''"
  by (simp add: hug_typed_def str_defs)

lemma hug_typed_selected:
  "select_template py0 (get_all_personal_commands hug_users_db 100) (U ''hug @bobby_b well done'') =
     Some \<lparr>name = U ''hug'', template = U ''@s1 hugs @s2 @t'', cmd_id = 1\<rparr>"
  by (simp add: select_template_def get_all_personal_commands_def hug_users_db_def
      hug_db_def empty_db_def row_cmd_def sort_commands_def word_count_def cmd_matches_def
      str_defs)

lemma hug_typed_resolved:
  "resolve_target hug_users_db env0 (msg carol 100 hug_typed) (U ''@bobby_b well done'') =
     \<lparr>target_id = Some 7,
      clickable_s2 = Some (U ''<a href='' @ [39] @ U ''tg://user?id=7'' @ [39] @ U ''>Bob</a>''),
      extra_text_for_output = U ''well done''\<rparr>"
  by (simp add: resolve_target_def resolve_by_reply_def resolve_by_username_def resolved_def
      no_target_def get_user_by_username_def sql_lower_def sql_lower_cp_def clickable_def
      get_display_name_def get_custom_name_def hug_users_db_def hug_db_def empty_db_def
      msg_def is_word_cp_def digits.simps Let_def str_defs)

lemma hug_typed_dispatch:
  "handle_text_commands py0 cfg0 env0 hug_users_db (msg carol 100 hug_typed) 2 =
     (Template,
      [ReplyText (U ''<a href='' @ [39] @ U ''tg://user?id=5'' @ [39] @ U ''>Carol</a> hugs <a href='' @
         [39] @ U ''tg://user?id=7'' @ [39] @ U ''>Bob</a> well done'')],
      hug_users_db)"
proof -
  have m: "message_text (msg carol 100 hug_typed) = hug_typed" "hug_typed \<noteq> []"
    "effective_user (msg carol 100 hug_typed) = Some carol" "tu_id carol \<noteq> 0"
    "effective_chat_id (msg carol 100 hug_typed) = 100"
    by (simp_all add: msg_def hug_typed_def carol_def U_def)
  have x: "py_strip (drop (length (U ''hug'')) (U ''hug @bobby_b well done'')) =
      U ''@bobby_b well done''"
    by (simp add: str_defs)
  have r: "render (U ''@s1 hugs @s2 @t'')
       (clickable 5 (U ''Carol'')) (U ''<a href='' @ [39] @ U ''tg://user?id=7'' @ [39] @ U ''>Bob</a>'')
       (U ''well done'') =
     U ''<a href='' @ [39] @ U ''tg://user?id=5'' @ [39] @ U ''>Carol</a> hugs <a href='' @
       [39] @ U ''tg://user?id=7'' @ [39] @ U ''>Bob</a> well done''"
    by (simp add: render_def clickable_def digits.simps str_defs)
  have n: "get_display_name hug_users_db 5 (tu_full_name carol) = U ''Carol''"
    "tu_id carol = 5"
    "get_personal_command_media hug_users_db 1 = []"
    by (simp_all add: get_display_name_def get_custom_name_def get_personal_command_media_def
        hug_users_db_def hug_db_def empty_db_def carol_def U_def)
  have t: "template_stage py0 hug_users_db env0 (msg carol 100 hug_typed) carol
       (U ''hug @bobby_b well done'') =
     Some [ReplyText (U ''<a href='' @ [39] @ U ''tg://user?id=5'' @ [39] @ U ''>Carol</a> hugs <a href='' @
         [39] @ U ''tg://user?id=7'' @ [39] @ U ''>Bob</a> well done'')]"
    using r
    by (simp add: template_stage_def m(5) hug_typed_selected x hug_typed_resolved has_target_def
        no_target_def send_rendered_def n Let_def)
  have c: "cleanup (U ''hug @bobby_b well done'') = []"
    by (simp add: cleanup_def str_defs)
  show ?thesis
    by (simp add: handle_text_commands_def m hug_typed_text t c Let_def)
qed

theorem template_dispatch_lowercase_witness:
  "handle_text_commands py0 cfg0 env0 hug_users_db (msg carol 100 hug_typed) 2 =
     (Template,
      [ReplyText (U ''<a href='' @ [39] @ U ''tg://user?id=5'' @ [39] @ U ''>Carol</a> hugs <a href='' @
         [39] @ U ''tg://user?id=7'' @ [39] @ U ''>Bob</a> well done'')],
      hug_users_db) \<and>
   handle_text_commands py0 cfg0 env0 hug_users_db (msg carol 100 (py_lower hug_typed)) 2 =
     handle_text_commands py0 cfg0 env0 hug_users_db (msg carol 100 hug_typed) 2 \<and>
   py_lower hug_typed \<noteq> hug_typed"
proof -
  have low: "lowercasing (str_lower py0)"
    by (simp add: lowercasing_py_lower)
  have u: "(msg carol 100 hug_typed)\<lparr>message_text := py_lower (message_text (msg carol 100 hug_typed))\<rparr> =
      msg carol 100 (py_lower hug_typed)"
    by (simp add: msg_def)
  have f: "fst (handle_text_commands py0 cfg0 env0 hug_users_db (msg carol 100 hug_typed) 2) = Template"
    by (simp add: hug_typed_dispatch)
  have "handle_text_commands py0 cfg0 env0 hug_users_db (msg carol 100 (py_lower hug_typed)) 2 =
     handle_text_commands py0 cfg0 env0 hug_users_db (msg carol 100 hug_typed) 2"
    using template_dispatch_lowercase [OF low, where upd = "msg carol 100 hug_typed"
        and d = hug_users_db and e = env0 and cfg = cfg0 and now = 2] f
    unfolding py0_simps u by blast
  moreover have "py_lower hug_typed \<noteq> hug_typed"
    by (simp add: hug_typed_def str_defs)
  ultimately show ?thesis
    using hug_typed_dispatch by simp
qed

end
